theory Spec2Isabelle
  imports Main "HOL-Library.Code_Target_Nat"
begin

section \<open>Strings\<close>

text \<open>
  A JavaScript string is a sequence of UTF-16 code units, and a code unit is modelled by its
  number. \<open>js\<close> gives the string of a literal of the source. Text that only the program
  writes (messages, field names, the names of actions) stays a \<^typ>\<open>string\<close>.
\<close>

type_synonym code_unit = nat

type_synonym jstring = "code_unit list"

definition js :: "string \<Rightarrow> jstring" where
  "js s = map of_char s"

text \<open>The classes \<open>[A-Z]\<close>, \<open>[a-z]\<close> and \<open>[0-9]\<close> (\<open>\d\<close>) of the source's regular expressions.\<close>

definition is_upper :: "code_unit \<Rightarrow> bool" where
  "is_upper c = (65 \<le> c \<and> c \<le> 90)"

definition is_lower :: "code_unit \<Rightarrow> bool" where
  "is_lower c = (97 \<le> c \<and> c \<le> 122)"

definition is_digit :: "code_unit \<Rightarrow> bool" where
  "is_digit c = (48 \<le> c \<and> c \<le> 57)"

text \<open>The class \<open>[a-z0-9]\<close>.\<close>

definition is_slug_char :: "code_unit \<Rightarrow> bool" where
  "is_slug_char c = (is_lower c \<or> is_digit c)"

text \<open>An alphanumeric character of the input: \<open>[A-Za-z0-9]\<close>.\<close>

definition is_alnum :: "code_unit \<Rightarrow> bool" where
  "is_alnum c = (is_upper c \<or> is_lower c \<or> is_digit c)"

definition is_ascii :: "code_unit \<Rightarrow> bool" where
  "is_ascii c = (c < 128)"

text \<open>
  \<open>String.prototype.toLowerCase\<close> is the case mapping of Unicode, which belongs to the
  language and not to the repository. The model writes out what the mapping does to the
  ASCII characters (\<open>A\<close> to \<open>Z\<close> become \<open>a\<close> to \<open>z\<close>, the others stay) and the two
  characters outside ASCII that it maps into ASCII: the Kelvin sign U+212A becomes \<open>k\<close>, and
  the capital I with dot above U+0130 becomes \<open>i\<close> followed by the combining dot U+0307. What
  it writes for any other code unit is the parameter \<open>u\<close>, which is given the whole string
  and the index, since that part of the mapping may look at a character's neighbours (the
  two halves of a surrogate pair, the final sigma).
\<close>

definition lower_at :: "(jstring \<Rightarrow> nat \<Rightarrow> jstring) \<Rightarrow> jstring \<Rightarrow> nat \<Rightarrow> jstring" where
  "lower_at u s i =
     (let c = s ! i
      in if is_upper c then [c + 32]
         else if is_ascii c then [c]
         else if c = 8490 then js ''k''
         else if c = 304 then js ''i'' @ [775]
         else u s i)"

definition toLowerCase :: "(jstring \<Rightarrow> nat \<Rightarrow> jstring) \<Rightarrow> jstring \<Rightarrow> jstring" where
  "toLowerCase u s = concat (map (lower_at u s) [0..<length s])"

definition hyphen :: code_unit where
  "hyphen = of_char CHR ''-''"

definition is_hyphen :: "code_unit \<Rightarrow> bool" where
  "is_hyphen c = (c = hyphen)"

section \<open>Slug generator (routes/blog.js, createSlug)\<close>

text \<open>
  \<open>.replace(/[^a-z0-9]+/g, '-')\<close>: scanning from the left, a code unit of \<open>[a-z0-9]\<close> is
  copied; at any other code unit the longest run of such code units is consumed
  (\<open>skip_non_slug\<close> drops the rest of the run) and one hyphen is written.
\<close>

definition skip_non_slug :: "jstring \<Rightarrow> jstring" where
  "skip_non_slug cs = dropWhile (\<lambda>d. \<not> is_slug_char d) cs"

function replace_non_slug :: "jstring \<Rightarrow> jstring" where
  "replace_non_slug [] = []"
| "replace_non_slug (c # cs) =
     (if is_slug_char c then c # replace_non_slug cs
      else hyphen # replace_non_slug (skip_non_slug cs))"
  by pat_completeness auto
termination
  by (relation "measure length")
    (auto simp: skip_non_slug_def length_dropWhile_le less_Suc_eq_le)

text \<open>
  \<open>.replace(/^-+|-+$/g, '')\<close>: the first alternative removes the hyphens the string starts
  with, the second the hyphens it ends with.
\<close>

definition strip_leading :: "jstring \<Rightarrow> jstring" where
  "strip_leading s = dropWhile is_hyphen s"

definition strip_trailing :: "jstring \<Rightarrow> jstring" where
  "strip_trailing s = rev (dropWhile is_hyphen (rev s))"

definition strip_hyphens :: "jstring \<Rightarrow> jstring" where
  "strip_hyphens s = strip_trailing (strip_leading s)"

text \<open>
  \<open>createSlug(title, id = '')\<close>; the empty string is falsy, so an empty \<open>id\<close> gives the
  base slug alone. The first argument is the parameter of \<open>toLowerCase\<close>.
\<close>

definition createSlug :: "(jstring \<Rightarrow> nat \<Rightarrow> jstring) \<Rightarrow> jstring \<Rightarrow> jstring \<Rightarrow> jstring" where
  "createSlug u title ident =
     (let baseSlug = strip_hyphens (replace_non_slug (toLowerCase u title))
      in if ident \<noteq> [] then baseSlug @ js ''-'' @ ident else baseSlug)"

text \<open>
  The specification's wording of the same function: the lower-cased input is cut into its
  maximal runs of characters inside and outside \<open>[a-z0-9]\<close>, each run outside is replaced by
  one hyphen, and leading and trailing hyphens are stripped.
\<close>

function maximal_runs :: "('a \<Rightarrow> bool) \<Rightarrow> 'a list \<Rightarrow> 'a list list" where
  "maximal_runs P [] = []"
| "maximal_runs P (x # xs) =
     (x # takeWhile (\<lambda>y. P y = P x) xs) # maximal_runs P (dropWhile (\<lambda>y. P y = P x) xs)"
  by pat_completeness auto
termination
  by (relation "measure (\<lambda>(P, xs). length xs)") (auto simp: length_dropWhile_le less_Suc_eq_le)

definition slugify_spec :: "(jstring \<Rightarrow> nat \<Rightarrow> jstring) \<Rightarrow> jstring \<Rightarrow> jstring" where
  "slugify_spec u title =
     strip_hyphens
       (concat (map (\<lambda>r. if is_slug_char (hd r) then r else js ''-'')
                    (maximal_runs is_slug_char (toLowerCase u title))))"

text \<open>
  The language of \<open>^[a-z0-9]+(-[a-z0-9]+)*$\<close>, as its two-state automaton: the flag says
  whether the character just read was one of \<open>[a-z0-9]\<close>, which is where the expression may
  end and where a hyphen may follow.
\<close>

fun slug_re_from :: "bool \<Rightarrow> jstring \<Rightarrow> bool" where
  "slug_re_from acc [] = acc"
| "slug_re_from acc (c # cs) =
     (if is_slug_char c then slug_re_from True cs
      else if is_hyphen c \<and> acc then slug_re_from False cs
      else False)"

definition matches_slug_re :: "jstring \<Rightarrow> bool" where
  "matches_slug_re s = slug_re_from False s"

section \<open>Sanitizer (middleware/validate.js, sanitizeInput)\<close>

text \<open>
  White space is what JavaScript's \<open>\s\<close> and \<open>String.prototype.trim\<close> take for it: tab,
  line feed, vertical tab, form feed, carriage return, space, the no-break space U+00A0,
  U+1680, U+2000 to U+200A, the line and paragraph separators U+2028 and U+2029, U+202F,
  U+205F, U+3000 and the byte order mark U+FEFF. \<open>trim\<close> removes it from both ends.
\<close>

definition is_space :: "code_unit \<Rightarrow> bool" where
  "is_space c =
     ((9 \<le> c \<and> c \<le> 13) \<or> c = 32 \<or> c = 160 \<or> c = 5760 \<or> (8192 \<le> c \<and> c \<le> 8202) \<or>
      c = 8232 \<or> c = 8233 \<or> c = 8239 \<or> c = 8287 \<or> c = 12288 \<or> c = 65279)"

definition trim :: "jstring \<Rightarrow> jstring" where
  "trim s = rev (dropWhile is_space (rev (dropWhile is_space s)))"

text \<open>The values a JSON request body can hold.\<close>

datatype jsvalue =
    JString jstring
  | JNumber int
  | JBool bool
  | JNull
  | JUndefined
  | JArray "jsvalue list"
  | JObject "(jstring \<times> jsvalue) list"

text \<open>
  \<open>sanitizeInput\<close> passes a string through \<open>trim\<close> and then through the filter of the
  \<open>xss\<close> package. The package is not part of the repository, so the filter is a parameter.
\<close>

definition sanitizeInput :: "(jstring \<Rightarrow> jstring) \<Rightarrow> jsvalue \<Rightarrow> jsvalue" where
  "sanitizeInput xss v = (case v of JString s \<Rightarrow> JString (xss (trim s)) | _ \<Rightarrow> v)"

section \<open>Data model (scripts/init-db.js)\<close>

text \<open>
  One record per table row. Identifiers come from a \<open>SERIAL\<close> sequence, time stamps are
  points of a clock counted in milliseconds, a nullable column is an \<open>option\<close>.
\<close>

record user =
  user_id :: nat
  user_email :: jstring
  user_password :: jstring
  user_name :: jstring
  user_role :: jstring
  user_is_active :: bool
  user_created_at :: nat
  user_updated_at :: nat

record chiro =
  c_id :: nat
  c_name :: jstring
  c_state :: jstring
  c_address :: jstring
  c_phone :: jstring
  c_email :: jstring
  c_website :: "jstring option"
  c_specialty :: "jstring option"
  c_description :: "jstring option"
  c_is_featured :: bool
  c_is_active :: bool
  c_created_at :: nat
  c_updated_at :: nat

record post =
  p_id :: nat
  p_title :: jstring
  p_slug :: jstring
  p_content :: jstring
  p_excerpt :: jstring
  p_author :: jstring
  p_featured_image :: "jstring option"
  p_tags :: "jstring list"
  p_meta_title :: jstring
  p_meta_description :: jstring
  p_is_published :: bool
  p_views :: int
  p_created_at :: nat
  p_updated_at :: nat
  p_published_at :: "nat option"

record setting =
  s_id :: nat
  s_key :: jstring
  s_value :: "jstring option"
  s_type :: jstring
  s_description :: jstring
  s_created_at :: nat
  s_updated_at :: nat

text \<open>
  What the handlers store in \<open>old_values\<close> and \<open>new_values\<close>: the \<open>JSON.stringify\<close> of a
  whole row, of an object with the one field that changed, or of the submitted settings.
\<close>

datatype snapshot =
    Chiro_row chiro
  | Post_row post
  | Setting_row setting
  | Setting_value "jstring option"
  | Is_published bool
  | Settings_payload "(jstring \<times> jstring option) list"

record audit =
  a_id :: nat
  a_user_id :: "nat option"
  a_action :: string
  a_entity_type :: "string option"
  a_entity_id :: "nat option"
  a_old_values :: "snapshot option"
  a_new_values :: "snapshot option"
  a_ip_address :: "jstring option"
  a_user_agent :: "jstring option"
  a_created_at :: nat

text \<open>The database: the five tables and the next value of each \<open>SERIAL\<close> sequence.\<close>

record db =
  users :: "user list"
  chiropractors :: "chiro list"
  blog_posts :: "post list"
  site_settings :: "setting list"
  audit_log :: "audit list"
  users_seq :: nat
  chiropractors_seq :: nat
  blog_posts_seq :: nat
  site_settings_seq :: nat
  audit_log_seq :: nat

text \<open>
  What a request meets outside the tables: the clock (\<open>CURRENT_TIMESTAMP\<close>, \<open>new Date()\<close>,
  \<open>Date.now()\<close>), and whether the storage layer carries out the entity statement and the
  audit statement of the request or raises. A raised error lands in the handler's \<open>catch\<close>.
  No handler opens a transaction, so each statement that succeeded stays committed. The
  constraints the tables state are in the handlers (the unique slug, key and email, the
  32-bit view counter); a statement refused for another reason, a column's length limit or a
  lost connection, is \<open>store_ok\<close> being false. The lookups of the write handlers are carried
  out; the two public reads of a post raise on a parameter that the storage layer refuses.
  \<open>case_map\<close> is the part of the platform's \<open>toLowerCase\<close> that the model leaves open.
\<close>

record env =
  now :: nat
  store_ok :: bool
  audit_ok :: bool
  case_map :: "jstring \<Rightarrow> nat \<Rightarrow> jstring"

section \<open>Requests and responses\<close>

text \<open>The columns \<open>verifyToken\<close> selects and attaches as \<open>req.user\<close>.\<close>

record identity =
  ident_id :: nat
  ident_email :: jstring
  ident_name :: jstring
  ident_role :: jstring
  ident_is_active :: bool

record request =
  req_authorization :: "jstring option"
  req_cookie_token :: "jstring option"
  req_ip :: jstring
  req_user_agent :: "jstring option"
  req_user :: "identity option"

datatype cookie_effect = Cookie_untouched | Cookie_set jstring | Cookie_cleared

datatype body =
    Error string
  | Validation_failed "(string \<times> string) list"
  | Message string
  | Chiropractor_body string chiro
  | Post_body string post
  | Setting_body string setting
  | Setting_updated string jstring "jstring option"
  | Bulk_updated nat "(jstring \<times> jstring option) list"
  | User_body string identity
  | Login_body string identity jstring
  | Post_read post

datatype response = Response (status: nat) (payload: body) (cookie: cookie_effect)

abbreviation reply :: "nat \<Rightarrow> body \<Rightarrow> response" where
  "reply st b \<equiv> Response st b Cookie_untouched"

section \<open>Authentication middleware (middleware/auth.js)\<close>

text \<open>
  \<open>jwt.verify\<close> belongs to the \<open>jsonwebtoken\<close> package and is a parameter: it returns the
  decoded \<open>userId\<close> (absent when the payload has none) or throws one of the package's three
  errors.
\<close>

datatype jwt_result =
    Decoded "nat option"
  | JsonWebTokenError
  | TokenExpiredError
  | NotBeforeError

definition starts_with :: "jstring \<Rightarrow> jstring \<Rightarrow> bool" where
  "starts_with pre s = (take (length pre) s = pre)"

text \<open>
  The bearer token of the \<open>Authorization\<close> header when the header starts with
  \<open>Bearer\<close> and a space, otherwise the \<open>token\<close> cookie.
\<close>

definition extract_token :: "request \<Rightarrow> jstring option" where
  "extract_token req =
     (case req_authorization req of
        Some h \<Rightarrow> if starts_with (js ''Bearer '') h then Some (drop 7 h) else req_cookie_token req
      | None \<Rightarrow> req_cookie_token req)"

definition identity_of :: "user \<Rightarrow> identity" where
  "identity_of u =
     \<lparr>ident_id = user_id u, ident_email = user_email u, ident_name = user_name u,
      ident_role = user_role u, ident_is_active = user_is_active u\<rparr>"

text \<open>
  \<open>verifyToken\<close>. The result is the response sent, if any, and the request as the next
  middleware sees it; \<open>next()\<close> is called exactly when no response is sent.
\<close>

definition verifyToken ::
  "(jstring \<Rightarrow> jwt_result) \<Rightarrow> db \<Rightarrow> request \<Rightarrow> response option \<times> request" where
  "verifyToken jwt_verify d req =
     (case extract_token req of
        None \<Rightarrow> (Some (reply 401 (Error ''Access denied. No token provided.'')), req)
      | Some token \<Rightarrow>
          if token = [] then (Some (reply 401 (Error ''Access denied. No token provided.'')), req)
          else (case jwt_verify token of
              JsonWebTokenError \<Rightarrow> (Some (reply 401 (Error ''Invalid token.'')), req)
            | TokenExpiredError \<Rightarrow> (Some (reply 401 (Error ''Token expired.'')), req)
            | NotBeforeError \<Rightarrow> (Some (reply 500 (Error ''Authentication error.'')), req)
            | Decoded uid \<Rightarrow>
                (case filter (\<lambda>u. Some (user_id u) = uid) (users d) of
                   [] \<Rightarrow> (Some (reply 401 (Error ''User not found.'')), req)
                 | u # _ \<Rightarrow>
                     if \<not> user_is_active u
                     then (Some (reply 401 (Error ''Account is deactivated.'')), req)
                     else (None, req\<lparr>req_user := Some (identity_of u)\<rparr>))))"

text \<open>\<open>isAdmin\<close>: the 403 response, or the identity the handler goes on with.\<close>

definition isAdmin :: "request \<Rightarrow> response + identity" where
  "isAdmin req =
     (case req_user req of
        None \<Rightarrow> Inl (reply 403 (Error ''Access denied. Admin privileges required.''))
      | Some u \<Rightarrow>
          if ident_role u \<noteq> js ''admin''
          then Inl (reply 403 (Error ''Access denied. Admin privileges required.''))
          else Inr u)"

section \<open>Audit recorder\<close>

text \<open>
  The \<open>INSERT INTO audit_log\<close> every handler ends with. The row gets the next identifier
  and the current time; when the storage layer raises, nothing is appended. Whether the
  sequence has given out a value by then depends on where the statement fails; the model
  keeps the sequence as it was.
\<close>

definition insert_audit ::
  "env \<Rightarrow> nat option \<Rightarrow> string \<Rightarrow> string option \<Rightarrow> nat option \<Rightarrow> snapshot option \<Rightarrow>
   snapshot option \<Rightarrow> jstring option \<Rightarrow> jstring option \<Rightarrow> db \<Rightarrow> db option" where
  "insert_audit e uid action etype eid old new ip ua d =
     (if audit_ok e
      then Some (d\<lparr>audit_log := audit_log d @
                     [\<lparr>a_id = audit_log_seq d, a_user_id = uid, a_action = action,
                       a_entity_type = etype, a_entity_id = eid, a_old_values = old,
                       a_new_values = new, a_ip_address = ip, a_user_agent = ua,
                       a_created_at = now e\<rparr>],
                   audit_log_seq := Suc (audit_log_seq d)\<rparr>)
      else None)"

section \<open>Login (routes/auth.js, POST /login)\<close>


section \<open>Listings (routes/chiropractors.js, routes/admin.js)\<close>

text \<open>
  The body of a Listing request. A string field that is absent and one that is empty are
  treated alike by the validation chains and by \<open>|| null\<close>, so both are the empty string.
\<close>

record chiro_input =
  ci_name :: jstring
  ci_state :: jstring
  ci_address :: jstring
  ci_phone :: jstring
  ci_email :: jstring
  ci_website :: jstring
  ci_specialty :: jstring
  ci_description :: jstring
  ci_is_featured :: bool

text \<open>\<open>x || null\<close> on a string.\<close>

definition or_null :: "jstring \<Rightarrow> jstring option" where
  "or_null s = (if s = [] then None else Some s)"

text \<open>
  \<open>UPDATE chiropractors SET ... WHERE id = $1\<close>. The trigger \<open>update_updated_at_column\<close>
  that \<open>init-db.js\<close> puts on the table sets \<open>updated_at\<close> of every row the statement
  updates to the current time.
\<close>

definition update_chiropractors ::
  "env \<Rightarrow> nat \<Rightarrow> (chiro \<Rightarrow> chiro) \<Rightarrow> chiro list \<Rightarrow> chiro list" where
  "update_chiropractors e i f rows =
     map (\<lambda>c. if c_id c = i then (f c)\<lparr>c_updated_at := now e\<rparr> else c) rows"

text \<open>\<open>SELECT * FROM chiropractors WHERE id = $1\<close>, the admin handlers' lookup.\<close>

definition select_chiropractor :: "nat \<Rightarrow> db \<Rightarrow> chiro list" where
  "select_chiropractor i d = filter (\<lambda>c. c_id c = i) (chiropractors d)"

text \<open>\<open>POST /\<close>: create, then log.\<close>

definition post_chiropractor ::
  "env \<Rightarrow> identity \<Rightarrow> jstring \<Rightarrow> chiro_input \<Rightarrow> db \<Rightarrow> response \<times> db" where
  "post_chiropractor e actor ip b d =
     (if \<not> store_ok e then (reply 500 (Error ''Failed to create chiropractor''), d)
      else
        (let row = \<lparr>c_id = chiropractors_seq d, c_name = ci_name b, c_state = ci_state b,
                   c_address = ci_address b, c_phone = ci_phone b, c_email = ci_email b,
                   c_website = or_null (ci_website b), c_specialty = or_null (ci_specialty b),
                   c_description = or_null (ci_description b),
                   c_is_featured = ci_is_featured b, c_is_active = True,
                   c_created_at = now e, c_updated_at = now e\<rparr>;
            d1 = d\<lparr>chiropractors := chiropractors d @ [row],
                   chiropractors_seq := Suc (chiropractors_seq d)\<rparr>
        in case insert_audit e (Some (ident_id actor)) ''create'' (Some ''chiropractor'')
                  (Some (c_id row)) None (Some (Chiro_row row)) (Some ip) None d1 of
             None \<Rightarrow> (reply 500 (Error ''Failed to create chiropractor''), d1)
           | Some d2 \<Rightarrow>
               (reply 201 (Chiropractor_body ''Chiropractor created successfully'' row), d2)))"

text \<open>\<open>PUT /:id\<close>: read the current row, update, log both rows.\<close>

definition put_chiropractor ::
  "env \<Rightarrow> identity \<Rightarrow> jstring \<Rightarrow> nat \<Rightarrow> chiro_input \<Rightarrow> db \<Rightarrow> response \<times> db" where
  "put_chiropractor e actor ip i b d =
     (case select_chiropractor i d of
        [] \<Rightarrow> (reply 404 (Error ''Chiropractor not found''), d)
      | current # _ \<Rightarrow>
          if \<not> store_ok e then (reply 500 (Error ''Failed to update chiropractor''), d)
          else
            (let d1 = d\<lparr>chiropractors :=
                       update_chiropractors e i
                         (\<lambda>c. c\<lparr>c_name := ci_name b, c_state := ci_state b,
                                c_address := ci_address b, c_phone := ci_phone b,
                                c_email := ci_email b, c_website := or_null (ci_website b),
                                c_specialty := or_null (ci_specialty b),
                                c_description := or_null (ci_description b),
                                c_is_featured := ci_is_featured b\<rparr>)
                         (chiropractors d)\<rparr>
            in case select_chiropractor i d1 of
                 [] \<Rightarrow> (reply 404 (Error ''Chiropractor not found''), d1)
               | result # _ \<Rightarrow>
                   (case insert_audit e (Some (ident_id actor)) ''update''
                           (Some ''chiropractor'') (Some i) (Some (Chiro_row current))
                           (Some (Chiro_row result)) (Some ip) None d1 of
                      None \<Rightarrow> (reply 500 (Error ''Failed to update chiropractor''), d1)
                    | Some d2 \<Rightarrow>
                        (reply 200
                           (Chiropractor_body ''Chiropractor updated successfully'' result),
                         d2))))"

text \<open>\<open>DELETE /:id\<close>, the soft delete: the active flag is switched off.\<close>

definition delete_chiropractor ::
  "env \<Rightarrow> identity \<Rightarrow> jstring \<Rightarrow> nat \<Rightarrow> db \<Rightarrow> response \<times> db" where
  "delete_chiropractor e actor ip i d =
     (case select_chiropractor i d of
        [] \<Rightarrow> (reply 404 (Error ''Chiropractor not found''), d)
      | current # _ \<Rightarrow>
          if \<not> store_ok e then (reply 500 (Error ''Failed to delete chiropractor''), d)
          else
            (let d1 = d\<lparr>chiropractors :=
                       update_chiropractors e i (\<lambda>c. c\<lparr>c_is_active := False\<rparr>)
                         (chiropractors d)\<rparr>
            in case insert_audit e (Some (ident_id actor)) ''delete'' (Some ''chiropractor'')
                      (Some i) (Some (Chiro_row current)) None (Some ip) None d1 of
                 None \<Rightarrow> (reply 500 (Error ''Failed to delete chiropractor''), d1)
               | Some d2 \<Rightarrow> (reply 200 (Message ''Chiropractor deleted successfully''), d2)))"

text \<open>\<open>POST /chiropractors/:id/restore\<close>: the active flag is switched on.\<close>

definition restore_chiropractor ::
  "env \<Rightarrow> identity \<Rightarrow> jstring \<Rightarrow> nat \<Rightarrow> db \<Rightarrow> response \<times> db" where
  "restore_chiropractor e actor ip i d =
     (if \<not> store_ok e then (reply 500 (Error ''Failed to restore chiropractor''), d)
      else
        (let d1 = d\<lparr>chiropractors :=
                   update_chiropractors e i (\<lambda>c. c\<lparr>c_is_active := True\<rparr>)
                     (chiropractors d)\<rparr>
        in case select_chiropractor i d1 of
             [] \<Rightarrow> (reply 404 (Error ''Chiropractor not found''), d1)
           | result # _ \<Rightarrow>
               (case insert_audit e (Some (ident_id actor)) ''restore'' (Some ''chiropractor'')
                       (Some i) None None (Some ip) None d1 of
                  None \<Rightarrow> (reply 500 (Error ''Failed to restore chiropractor''), d1)
                | Some d2 \<Rightarrow>
                    (reply 200
                       (Chiropractor_body ''Chiropractor restored successfully'' result),
                     d2))))"

text \<open>\<open>DELETE /chiropractors/:id/permanent\<close>: the row is removed.\<close>

definition permanent_delete_chiropractor ::
  "env \<Rightarrow> identity \<Rightarrow> jstring \<Rightarrow> nat \<Rightarrow> db \<Rightarrow> response \<times> db" where
  "permanent_delete_chiropractor e actor ip i d =
     (case select_chiropractor i d of
        [] \<Rightarrow> (reply 404 (Error ''Chiropractor not found''), d)
      | current # _ \<Rightarrow>
          if \<not> store_ok e then (reply 500 (Error ''Failed to delete chiropractor''), d)
          else
            (let d1 = d\<lparr>chiropractors := filter (\<lambda>c. c_id c \<noteq> i) (chiropractors d)\<rparr>
            in case insert_audit e (Some (ident_id actor)) ''permanent_delete''
                      (Some ''chiropractor'') (Some i) (Some (Chiro_row current)) None
                      (Some ip) None d1 of
                 None \<Rightarrow> (reply 500 (Error ''Failed to delete chiropractor''), d1)
               | Some d2 \<Rightarrow> (reply 200 (Message ''Chiropractor permanently deleted''), d2)))"

subsection \<open>Public reads of listings\<close>

text \<open>
  Each public query is given by the rows its \<open>WHERE\<close> clause selects, in table order;
  \<open>ORDER BY\<close>, \<open>LIMIT\<close> and \<open>OFFSET\<close> rearrange and cut that selection. \<open>ILIKE\<close> is a
  parameter; on a \<open>NULL\<close> column it does not hold.
\<close>

definition get_chiropractors ::
  "(jstring \<Rightarrow> jstring \<Rightarrow> bool) \<Rightarrow> jstring \<Rightarrow> jstring \<Rightarrow> db \<Rightarrow> chiro list" where
  "get_chiropractors ilike state search d =
     filter (\<lambda>c. c_is_active c \<and>
                 (state \<noteq> [] \<longrightarrow> c_state c = state) \<and>
                 (search \<noteq> [] \<longrightarrow>
                    ilike (c_name c) (js ''%'' @ search @ js ''%'') \<or>
                    (case c_specialty c of None \<Rightarrow> False
                     | Some sp \<Rightarrow> ilike sp (js ''%'' @ search @ js ''%'')) \<or>
                    ilike (c_address c) (js ''%'' @ search @ js ''%'')))
       (chiropractors d)"

definition get_chiropractors_by_state :: "jstring \<Rightarrow> db \<Rightarrow> chiro list" where
  "get_chiropractors_by_state state d =
     filter (\<lambda>c. c_state c = state \<and> c_is_active c) (chiropractors d)"

text \<open>\<open>GET /states\<close>: the states of the active listings, each with its number of them.\<close>

definition get_states :: "db \<Rightarrow> (jstring \<times> nat) list" where
  "get_states d =
     (let active = filter c_is_active (chiropractors d)
      in map (\<lambda>s. (s, length (filter (\<lambda>c. c_state c = s) active)))
           (remdups (map c_state active)))"

text \<open>\<open>GET /:id\<close> and the SEO lookup \<open>GET /chiropractor/:id\<close>; an empty result is the 404.\<close>

definition get_chiropractor :: "nat \<Rightarrow> db \<Rightarrow> chiro list" where
  "get_chiropractor i d = filter (\<lambda>c. c_id c = i \<and> c_is_active c) (chiropractors d)"

text \<open>\<open>GET /:id/related\<close>; \<open>None\<close> is the 404 for a listing that is missing or inactive.\<close>

definition get_related :: "nat \<Rightarrow> db \<Rightarrow> chiro list option" where
  "get_related i d =
     (case filter (\<lambda>c. c_id c = i \<and> c_is_active c) (chiropractors d) of
        [] \<Rightarrow> None
      | c # _ \<Rightarrow>
          Some (filter (\<lambda>r. c_state r = c_state c \<and> c_id r \<noteq> i \<and> c_is_active r)
                  (chiropractors d)))"

text \<open>The sitemap's two queries on the table (routes/seo.js, utils/seo.js).\<close>

definition sitemap_states :: "db \<Rightarrow> jstring list" where
  "sitemap_states d = remdups (map c_state (filter c_is_active (chiropractors d)))"

definition sitemap_chiropractors :: "db \<Rightarrow> chiro list" where
  "sitemap_chiropractors d = filter c_is_active (chiropractors d)"


text \<open>
  All public reads of listings at once, for given request parameters, and the database with
  the rows of one identifier taken out: a listing is absent from the public reads when they
  return what they would return without its row.
\<close>

definition public_view ::
  "(jstring \<Rightarrow> jstring \<Rightarrow> bool) \<Rightarrow> jstring \<Rightarrow> jstring \<Rightarrow> nat \<Rightarrow> db \<Rightarrow>
   chiro list \<times> chiro list \<times> (jstring \<times> nat) list \<times> chiro list \<times> chiro list option \<times>
   jstring list \<times> chiro list" where
  "public_view ilike state search j d =
     (get_chiropractors ilike state search d, get_chiropractors_by_state state d, get_states d,
      get_chiropractor j d, get_related j d, sitemap_states d, sitemap_chiropractors d)"

definition without_listing :: "nat \<Rightarrow> db \<Rightarrow> db" where
  "without_listing i d = d\<lparr>chiropractors := filter (\<lambda>c. c_id c \<noteq> i) (chiropractors d)\<rparr>"

section \<open>Blog posts (routes/blog.js, routes/admin.js)\<close>

text \<open>
  The body of a Post request; an absent string field is the empty string, absent \<open>tags\<close>
  the empty list, and \<open>is_published\<close> may be absent.
\<close>

record post_input =
  pi_title :: jstring
  pi_content :: jstring
  pi_author :: jstring
  pi_excerpt :: jstring
  pi_featured_image :: jstring
  pi_tags :: "jstring list"
  pi_meta_title :: jstring
  pi_meta_description :: jstring
  pi_is_published :: "bool option"

text \<open>\<open>Date.now().toString(36)\<close>: the digits of a number in base 36, most significant first.\<close>

definition digit36 :: "nat \<Rightarrow> code_unit" where
  "digit36 k = js ''0123456789abcdefghijklmnopqrstuvwxyz'' ! k"

function to_base36 :: "nat \<Rightarrow> jstring" where
  "to_base36 n = (if n < 36 then [digit36 n] else to_base36 (n div 36) @ [digit36 (n mod 36)])"
  by pat_completeness auto
termination
  by (relation "measure id") auto

declare to_base36.simps [simp del]

definition slug_taken :: "jstring \<Rightarrow> post list \<Rightarrow> bool" where
  "slug_taken sl rows = (\<exists>p \<in> set rows. p_slug p = sl)"

text \<open>
  The slug \<open>POST /\<close> inserts: the one derived from the title, or, when a post has it
  already, the title's slug with the time in base 36 appended.
\<close>

definition new_post_slug :: "env \<Rightarrow> jstring \<Rightarrow> post list \<Rightarrow> jstring" where
  "new_post_slug e title rows =
     (if slug_taken (createSlug (case_map e) title []) rows
      then createSlug (case_map e) title (to_base36 (now e))
      else createSlug (case_map e) title [])"

definition excerpt_of :: "post_input \<Rightarrow> jstring" where
  "excerpt_of b = (if pi_excerpt b \<noteq> [] then pi_excerpt b else take 200 (pi_content b))"

definition meta_title_of :: "post_input \<Rightarrow> jstring" where
  "meta_title_of b = (if pi_meta_title b \<noteq> [] then pi_meta_title b else pi_title b)"

definition meta_description_of :: "post_input \<Rightarrow> jstring" where
  "meta_description_of b =
     (if pi_meta_description b \<noteq> [] then pi_meta_description b
      else if pi_excerpt b \<noteq> [] then pi_excerpt b
      else take 160 (pi_content b))"

text \<open>
  \<open>POST /\<close>. The column \<open>slug\<close> is \<open>UNIQUE\<close>: an insert of a slug that a post has raises,
  after the sequence has given out its value.
\<close>

definition post_blog ::
  "env \<Rightarrow> identity \<Rightarrow> jstring \<Rightarrow> post_input \<Rightarrow> db \<Rightarrow> response \<times> db" where
  "post_blog e actor ip b d =
     (let slug = new_post_slug e (pi_title b) (blog_posts d)
      in if \<not> store_ok e then (reply 500 (Error ''Failed to create blog post''), d)
         else if slug_taken slug (blog_posts d)
         then (reply 500 (Error ''Failed to create blog post''),
               d\<lparr>blog_posts_seq := Suc (blog_posts_seq d)\<rparr>)
         else
           (let row = \<lparr>p_id = blog_posts_seq d, p_title = pi_title b, p_slug = slug,
                      p_content = pi_content b, p_excerpt = excerpt_of b,
                      p_author = pi_author b,
                      p_featured_image = or_null (pi_featured_image b),
                      p_tags = pi_tags b, p_meta_title = meta_title_of b,
                      p_meta_description = meta_description_of b,
                      p_is_published = (pi_is_published b \<noteq> Some False), p_views = 0,
                      p_created_at = now e, p_updated_at = now e,
                      p_published_at =
                        (if pi_is_published b \<noteq> Some False then Some (now e) else None)\<rparr>;
                d1 = d\<lparr>blog_posts := blog_posts d @ [row],
                       blog_posts_seq := Suc (blog_posts_seq d)\<rparr>
            in case insert_audit e (Some (ident_id actor)) ''create'' (Some ''blog_post'')
                      (Some (p_id row)) None (Some (Post_row row)) (Some ip) None d1 of
                 None \<Rightarrow> (reply 500 (Error ''Failed to create blog post''), d1)
               | Some d2 \<Rightarrow> (reply 201 (Post_body ''Blog post created successfully'' row), d2)))"

text \<open>
  \<open>UPDATE blog_posts SET ... WHERE id = $1 RETURNING *\<close>. A row the statement updates
  gets the new columns and, from the table's trigger, the current time as \<open>updated_at\<close>;
  \<open>RETURNING *\<close> gives the updated rows, the first being the image of the first row with
  that identifier.
\<close>

definition updated_post :: "env \<Rightarrow> (post \<Rightarrow> post) \<Rightarrow> post \<Rightarrow> post" where
  "updated_post e f p = (f p)\<lparr>p_updated_at := now e\<rparr>"

definition update_blog_posts ::
  "env \<Rightarrow> nat \<Rightarrow> (post \<Rightarrow> post) \<Rightarrow> post list \<Rightarrow> post list" where
  "update_blog_posts e i f rows = map (\<lambda>p. if p_id p = i then updated_post e f p else p) rows"

definition select_blog_post :: "nat \<Rightarrow> db \<Rightarrow> post list" where
  "select_blog_post i d = filter (\<lambda>p. p_id p = i) (blog_posts d)"

text \<open>The slug \<open>PUT /:id\<close> stores: kept while the title is the same, derived anew otherwise.\<close>

definition updated_post_slug :: "env \<Rightarrow> nat \<Rightarrow> post \<Rightarrow> jstring \<Rightarrow> post list \<Rightarrow> jstring" where
  "updated_post_slug e i current title rows =
     (if title \<noteq> p_title current
      then (if slug_taken (createSlug (case_map e) title []) (filter (\<lambda>p. p_id p \<noteq> i) rows)
            then createSlug (case_map e) title (to_base36 (now e))
            else createSlug (case_map e) title [])
      else p_slug current)"

definition updated_published_at :: "env \<Rightarrow> post \<Rightarrow> bool option \<Rightarrow> nat option" where
  "updated_published_at e current is_published =
     (if is_published = Some True \<and> \<not> p_is_published current then Some (now e)
      else if is_published \<noteq> Some True then None
      else p_published_at current)"

definition put_blog ::
  "env \<Rightarrow> identity \<Rightarrow> jstring \<Rightarrow> nat \<Rightarrow> post_input \<Rightarrow> db \<Rightarrow> response \<times> db" where
  "put_blog e actor ip i b d =
     (case select_blog_post i d of
        [] \<Rightarrow> (reply 404 (Error ''Blog post not found''), d)
      | current # _ \<Rightarrow>
          (let slug = updated_post_slug e i current (pi_title b) (blog_posts d);
               publishedAt = updated_published_at e current (pi_is_published b)
           in if \<not> store_ok e \<or> slug_taken slug (filter (\<lambda>p. p_id p \<noteq> i) (blog_posts d))
              then (reply 500 (Error ''Failed to update blog post''), d)
              else
                (let set_columns =
                       (\<lambda>p. p\<lparr>p_title := pi_title b, p_slug := slug,
                              p_content := pi_content b, p_excerpt := excerpt_of b,
                              p_author := pi_author b,
                              p_featured_image := or_null (pi_featured_image b),
                              p_tags := pi_tags b, p_meta_title := meta_title_of b,
                              p_meta_description := meta_description_of b,
                              p_is_published := (pi_is_published b \<noteq> Some False),
                              p_published_at := publishedAt\<rparr>);
                     d1 = d\<lparr>blog_posts := update_blog_posts e i set_columns (blog_posts d)\<rparr>;
                     result = updated_post e set_columns current
                 in case insert_audit e (Some (ident_id actor)) ''update''
                           (Some ''blog_post'') (Some i) (Some (Post_row current))
                           (Some (Post_row result)) (Some ip) None d1 of
                      None \<Rightarrow> (reply 500 (Error ''Failed to update blog post''), d1)
                    | Some d2 \<Rightarrow>
                        (reply 200 (Post_body ''Blog post updated successfully'' result),
                         d2))))"

text \<open>\<open>DELETE /:id\<close>: posts are removed for good.\<close>

definition delete_blog ::
  "env \<Rightarrow> identity \<Rightarrow> jstring \<Rightarrow> nat \<Rightarrow> db \<Rightarrow> response \<times> db" where
  "delete_blog e actor ip i d =
     (case select_blog_post i d of
        [] \<Rightarrow> (reply 404 (Error ''Blog post not found''), d)
      | current # _ \<Rightarrow>
          if \<not> store_ok e then (reply 500 (Error ''Failed to delete blog post''), d)
          else
            (let d1 = d\<lparr>blog_posts := filter (\<lambda>p. p_id p \<noteq> i) (blog_posts d)\<rparr>
             in case insert_audit e (Some (ident_id actor)) ''delete'' (Some ''blog_post'')
                       (Some i) (Some (Post_row current)) None (Some ip) None d1 of
                  None \<Rightarrow> (reply 500 (Error ''Failed to delete blog post''), d1)
                | Some d2 \<Rightarrow> (reply 200 (Message ''Blog post deleted successfully''), d2)))"

text \<open>\<open>POST /blog-posts/:id/toggle-publish\<close>.\<close>

definition toggle_publish ::
  "env \<Rightarrow> identity \<Rightarrow> jstring \<Rightarrow> nat \<Rightarrow> db \<Rightarrow> response \<times> db" where
  "toggle_publish e actor ip i d =
     (case select_blog_post i d of
        [] \<Rightarrow> (reply 404 (Error ''Blog post not found''), d)
      | current # _ \<Rightarrow>
          (let newStatus = (\<not> p_is_published current);
               publishedAt =
                 (if newStatus
                  then (case p_published_at current of None \<Rightarrow> Some (now e) | Some t \<Rightarrow> Some t)
                  else None)
           in if \<not> store_ok e then (reply 500 (Error ''Failed to toggle publish status''), d)
              else
                (let set_columns =
                       (\<lambda>p. p\<lparr>p_is_published := newStatus, p_published_at := publishedAt\<rparr>);
                     d1 = d\<lparr>blog_posts := update_blog_posts e i set_columns (blog_posts d)\<rparr>;
                     result = updated_post e set_columns current
                 in case insert_audit e (Some (ident_id actor))
                           (if newStatus then ''publish'' else ''unpublish'')
                           (Some ''blog_post'') (Some i)
                           (Some (Is_published (p_is_published current)))
                           (Some (Is_published newStatus)) (Some ip) None d1 of
                      None \<Rightarrow> (reply 500 (Error ''Failed to toggle publish status''), d1)
                    | Some d2 \<Rightarrow>
                        (reply 200
                           (Post_body (if newStatus then ''Blog post published successfully''
                                       else ''Blog post unpublished successfully'') result),
                         d2))))"

subsection \<open>Public reads of a single post\<close>

text \<open>
  \<open>UPDATE blog_posts SET views = views + 1 WHERE id = $1\<close>. The column is a 32-bit
  \<open>INTEGER\<close>, so the statement raises at the largest value; the table's trigger sets
  \<open>updated_at\<close> of the row.
\<close>

definition increment_views :: "env \<Rightarrow> nat \<Rightarrow> post list \<Rightarrow> post list option" where
  "increment_views e i rows =
     (if \<not> store_ok e \<or> (\<exists>p \<in> set rows. p_id p = i \<and> p_views p + 1 > 2147483647) then None
      else Some (update_blog_posts e i (\<lambda>p. p\<lparr>p_views := p_views p + 1\<rparr>) rows))"

definition read_post :: "env \<Rightarrow> post list \<Rightarrow> db \<Rightarrow> response \<times> db" where
  "read_post e selected d =
     (case selected of
        [] \<Rightarrow> (reply 404 (Error ''Blog post not found''), d)
      | p # _ \<Rightarrow>
          (case increment_views e (p_id p) (blog_posts d) of
             None \<Rightarrow> (reply 500 (Error ''Failed to fetch blog post''), d)
           | Some rows \<Rightarrow> (reply 200 (Post_read p), d\<lparr>blog_posts := rows\<rparr>)))"

text \<open>
  What the \<open>SELECT\<close> of a read is given as \<open>$1\<close>. The storage layer raises on a text
  parameter that holds the character U+0000, and on an integer parameter that does not fit
  the 32-bit column \<open>id\<close>; the error lands in the handler's \<open>catch\<close>.
\<close>

definition text_param_ok :: "jstring \<Rightarrow> bool" where
  "text_param_ok s = (0 \<notin> set s)"

definition int4_param_ok :: "nat \<Rightarrow> bool" where
  "int4_param_ok i = (i \<le> 2147483647)"

text \<open>\<open>GET /slug/:slug\<close>.\<close>

definition get_blog_by_slug :: "env \<Rightarrow> jstring \<Rightarrow> db \<Rightarrow> response \<times> db" where
  "get_blog_by_slug e sl d =
     (if \<not> text_param_ok sl then (reply 500 (Error ''Failed to fetch blog post''), d)
      else read_post e (filter (\<lambda>p. p_slug p = sl \<and> p_is_published p) (blog_posts d)) d)"

text \<open>
  \<open>GET /:id\<close>, behind \<open>idValidation\<close> and \<open>handleValidationErrors\<close>: the parameter must be
  an integer from 1 on, and \<open>isInt\<close> sets no upper bound. A parameter that is no number is
  not a value of this model.
\<close>

definition idValidation :: "nat \<Rightarrow> (string \<times> string) list" where
  "idValidation i = (if i < 1 then [(''id'', ''Invalid ID'')] else [])"

definition get_blog_by_id :: "env \<Rightarrow> nat \<Rightarrow> db \<Rightarrow> response \<times> db" where
  "get_blog_by_id e i d =
     (if idValidation i \<noteq> [] then (reply 400 (Validation_failed (idValidation i)), d)
      else if \<not> int4_param_ok i then (reply 500 (Error ''Failed to fetch blog post''), d)
      else read_post e (filter (\<lambda>p. p_id p = i \<and> p_is_published p) (blog_posts d)) d)"


section \<open>Settings (routes/settings.js)\<close>

text \<open>\<open>UPDATE site_settings SET setting_value = $1 WHERE setting_key = $2\<close>, with the trigger.\<close>

definition update_setting_value ::
  "env \<Rightarrow> jstring \<Rightarrow> jstring option \<Rightarrow> setting list \<Rightarrow> setting list" where
  "update_setting_value e k v rows =
     map (\<lambda>s. if s_key s = k then s\<lparr>s_value := v, s_updated_at := now e\<rparr> else s) rows"

definition select_setting :: "jstring \<Rightarrow> db \<Rightarrow> setting list" where
  "select_setting k d = filter (\<lambda>s. s_key s = k) (site_settings d)"

text \<open>\<open>PUT /:key\<close>; the request's \<open>value\<close> may be absent, which stores \<open>NULL\<close>.\<close>

definition put_setting ::
  "env \<Rightarrow> identity \<Rightarrow> jstring \<Rightarrow> jstring \<Rightarrow> jstring option \<Rightarrow> db \<Rightarrow> response \<times> db" where
  "put_setting e actor ip k v d =
     (case select_setting k d of
        [] \<Rightarrow> (reply 404 (Error ''Setting not found''), d)
      | current # _ \<Rightarrow>
          if \<not> store_ok e then (reply 500 (Error ''Failed to update setting''), d)
          else
            (let d1 = d\<lparr>site_settings := update_setting_value e k v (site_settings d)\<rparr>
             in case insert_audit e (Some (ident_id actor)) ''update'' (Some ''setting'')
                       (Some (s_id current)) (Some (Setting_value (s_value current)))
                       (Some (Setting_value v)) (Some ip) None d1 of
                  None \<Rightarrow> (reply 500 (Error ''Failed to update setting''), d1)
                | Some d2 \<Rightarrow>
                    (reply 200 (Setting_updated ''Setting updated successfully'' k v), d2)))"

text \<open>
  The loop of \<open>POST /bulk\<close> over the entries of the submitted object: one \<open>UPDATE\<close> per
  entry, and the entry is reported as updated when a row had its key.
\<close>

fun bulk_update ::
  "env \<Rightarrow> (jstring \<times> jstring option) list \<Rightarrow> setting list \<Rightarrow>
   setting list \<times> (jstring \<times> jstring option) list" where
  "bulk_update e [] rows = (rows, [])"
| "bulk_update e ((k, v) # kvs) rows =
     (let (rows', updated) = bulk_update e kvs (update_setting_value e k v rows)
      in (rows', (if \<exists>s \<in> set rows. s_key s = k then [(k, v)] else []) @ updated))"

text \<open>
  \<open>POST /bulk\<close>. \<open>None\<close> is a body whose \<open>settings\<close> is missing or no object. One audit
  row is written for the request, of type \<open>settings\<close>, with the submitted object as
  \<open>new_values\<close> and no entity identifier.
\<close>

definition bulk_settings ::
  "env \<Rightarrow> identity \<Rightarrow> jstring \<Rightarrow> (jstring \<times> jstring option) list option \<Rightarrow> db \<Rightarrow>
   response \<times> db" where
  "bulk_settings e actor ip settings d =
     (case settings of
        None \<Rightarrow> (reply 400 (Error ''Invalid settings data''), d)
      | Some kvs \<Rightarrow>
          if kvs \<noteq> [] \<and> \<not> store_ok e then (reply 500 (Error ''Failed to update settings''), d)
          else
            (let (rows, updated) = bulk_update e kvs (site_settings d);
                 d1 = d\<lparr>site_settings := rows\<rparr>
             in case insert_audit e (Some (ident_id actor)) ''bulk_update'' (Some ''settings'')
                       None None (Some (Settings_payload kvs)) (Some ip) None d1 of
                  None \<Rightarrow> (reply 500 (Error ''Failed to update settings''), d1)
                | Some d2 \<Rightarrow> (reply 200 (Bulk_updated (length updated) updated), d2)))"

record setting_input =
  si_key :: jstring
  si_value :: jstring
  si_type :: jstring
  si_description :: jstring

text \<open>\<open>POST /\<close>: create a setting.\<close>

definition post_setting ::
  "env \<Rightarrow> identity \<Rightarrow> jstring \<Rightarrow> setting_input \<Rightarrow> db \<Rightarrow> response \<times> db" where
  "post_setting e actor ip b d =
     (if select_setting (si_key b) d \<noteq> [] then (reply 400 (Error ''Setting already exists''), d)
      else if \<not> store_ok e then (reply 500 (Error ''Failed to create setting''), d)
      else
        (let row = \<lparr>s_id = site_settings_seq d, s_key = si_key b, s_value = Some (si_value b),
                   s_type = (if si_type b \<noteq> [] then si_type b else js ''text''),
                   s_description = si_description b,
                   s_created_at = now e, s_updated_at = now e\<rparr>;
             d1 = d\<lparr>site_settings := site_settings d @ [row],
                    site_settings_seq := Suc (site_settings_seq d)\<rparr>
         in case insert_audit e (Some (ident_id actor)) ''create'' (Some ''setting'')
                   (Some (s_id row)) None (Some (Setting_row row)) (Some ip) None d1 of
              None \<Rightarrow> (reply 500 (Error ''Failed to create setting''), d1)
            | Some d2 \<Rightarrow> (reply 201 (Setting_body ''Setting created successfully'' row), d2)))"

text \<open>\<open>DELETE /:key\<close>; the audit row carries the old row and no entity identifier.\<close>

definition coreSettings :: "jstring list" where
  "coreSettings = [js ''site_name'', js ''site_description'', js ''contact_email'']"

definition delete_setting ::
  "env \<Rightarrow> identity \<Rightarrow> jstring \<Rightarrow> jstring \<Rightarrow> db \<Rightarrow> response \<times> db" where
  "delete_setting e actor ip k d =
     (if k \<in> set coreSettings then (reply 400 (Error ''Cannot delete core settings''), d)
      else
        (case select_setting k d of
           [] \<Rightarrow> (reply 404 (Error ''Setting not found''), d)
         | current # _ \<Rightarrow>
             if \<not> store_ok e then (reply 500 (Error ''Failed to delete setting''), d)
             else
               (let d1 = d\<lparr>site_settings := filter (\<lambda>s. s_key s \<noteq> k) (site_settings d)\<rparr>
                in case insert_audit e (Some (ident_id actor)) ''delete'' (Some ''setting'')
                          None (Some (Setting_row current)) None (Some ip) None d1 of
                     None \<Rightarrow> (reply 500 (Error ''Failed to delete setting''), d1)
                   | Some d2 \<Rightarrow> (reply 200 (Message ''Setting deleted successfully''), d2))))"

section \<open>Accounts (routes/admin.js)\<close>

record user_input =
  ui_email :: jstring
  ui_password :: jstring
  ui_name :: jstring

text \<open>\<open>POST /users\<close>; \<open>bcrypt.hash\<close> is a parameter. The audit row has no snapshot.\<close>

definition post_user ::
  "(jstring \<Rightarrow> jstring) \<Rightarrow> env \<Rightarrow> identity \<Rightarrow> jstring \<Rightarrow> user_input \<Rightarrow> db \<Rightarrow> response \<times> db" where
  "post_user bcrypt_hash e actor ip b d =
     (if filter (\<lambda>u. user_email u = ui_email b) (users d) \<noteq> []
      then (reply 400 (Error ''Email already exists''), d)
      else if \<not> store_ok e then (reply 500 (Error ''Failed to create user''), d)
      else
        (let row = \<lparr>user_id = users_seq d, user_email = ui_email b,
                   user_password = bcrypt_hash (ui_password b), user_name = ui_name b,
                   user_role = js ''admin'', user_is_active = True,
                   user_created_at = now e, user_updated_at = now e\<rparr>;
             d1 = d\<lparr>users := users d @ [row], users_seq := Suc (users_seq d)\<rparr>
         in case insert_audit e (Some (ident_id actor)) ''create_user'' (Some ''user'')
                   (Some (user_id row)) None None (Some ip) None d1 of
              None \<Rightarrow> (reply 500 (Error ''Failed to create user''), d1)
            | Some d2 \<Rightarrow> (reply 201 (User_body ''User created successfully'' (identity_of row)), d2)))"

text \<open>\<open>POST /users/:id/toggle-active\<close>: \<open>UPDATE users SET is_active = NOT is_active\<close>.\<close>

definition updated_user :: "env \<Rightarrow> user \<Rightarrow> user" where
  "updated_user e u = u\<lparr>user_is_active := \<not> user_is_active u, user_updated_at := now e\<rparr>"

definition toggle_active ::
  "env \<Rightarrow> identity \<Rightarrow> jstring \<Rightarrow> nat \<Rightarrow> db \<Rightarrow> response \<times> db" where
  "toggle_active e actor ip i d =
     (if i = ident_id actor then (reply 400 (Error ''Cannot deactivate your own account''), d)
      else
        (case filter (\<lambda>u. user_id u = i) (users d) of
           [] \<Rightarrow> (reply 404 (Error ''User not found''), d)
         | current # _ \<Rightarrow>
             if \<not> store_ok e then (reply 500 (Error ''Failed to toggle user status''), d)
             else
               (let d1 = d\<lparr>users := map (\<lambda>u. if user_id u = i then updated_user e u else u)
                                        (users d)\<rparr>;
                    result = updated_user e current
                in case insert_audit e (Some (ident_id actor))
                          (if user_is_active result then ''activate_user''
                           else ''deactivate_user'')
                          (Some ''user'') (Some i) None None (Some ip) None d1 of
                     None \<Rightarrow> (reply 500 (Error ''Failed to toggle user status''), d1)
                   | Some d2 \<Rightarrow>
                       (reply 200
                          (User_body (if user_is_active result then ''User activated successfully''
                                      else ''User deactivated successfully'')
                             (identity_of result)),
                        d2))))"

section \<open>The admin write endpoints\<close>

text \<open>One constructor per admin write endpoint, with its parameters and body.\<close>

datatype admin_write =
    Create_listing chiro_input
  | Update_listing nat chiro_input
  | Delete_listing nat
  | Restore_listing nat
  | Permanent_delete_listing nat
  | Create_post post_input
  | Update_post nat post_input
  | Delete_post nat
  | Toggle_publish nat
  | Update_setting jstring "jstring option"
  | Bulk_update_settings "(jstring \<times> jstring option) list option"
  | Create_setting setting_input
  | Delete_setting jstring
  | Create_account user_input
  | Toggle_account nat

fun admin_handler ::
  "(jstring \<Rightarrow> jstring) \<Rightarrow> env \<Rightarrow> identity \<Rightarrow> jstring \<Rightarrow> admin_write \<Rightarrow> db \<Rightarrow> response \<times> db" where
  "admin_handler h e actor ip (Create_listing b) d = post_chiropractor e actor ip b d"
| "admin_handler h e actor ip (Update_listing i b) d = put_chiropractor e actor ip i b d"
| "admin_handler h e actor ip (Delete_listing i) d = delete_chiropractor e actor ip i d"
| "admin_handler h e actor ip (Restore_listing i) d = restore_chiropractor e actor ip i d"
| "admin_handler h e actor ip (Permanent_delete_listing i) d =
     permanent_delete_chiropractor e actor ip i d"
| "admin_handler h e actor ip (Create_post b) d = post_blog e actor ip b d"
| "admin_handler h e actor ip (Update_post i b) d = put_blog e actor ip i b d"
| "admin_handler h e actor ip (Delete_post i) d = delete_blog e actor ip i d"
| "admin_handler h e actor ip (Toggle_publish i) d = toggle_publish e actor ip i d"
| "admin_handler h e actor ip (Update_setting k v) d = put_setting e actor ip k v d"
| "admin_handler h e actor ip (Bulk_update_settings kvs) d = bulk_settings e actor ip kvs d"
| "admin_handler h e actor ip (Create_setting b) d = post_setting e actor ip b d"
| "admin_handler h e actor ip (Delete_setting k) d = delete_setting e actor ip k d"
| "admin_handler h e actor ip (Create_account b) d = post_user h e actor ip b d"
| "admin_handler h e actor ip (Toggle_account i) d = toggle_active e actor ip i d"

definition succeeded :: "response \<Rightarrow> bool" where
  "succeeded r = (status r = 200 \<or> status r = 201)"


section \<open>Field validator (middleware/validate.js)\<close>

text \<open>
  The functions the chains take from other packages are parameters: the \<open>xss\<close> filter and
  \<open>validator\<close>'s \<open>isEmail\<close>, \<open>normalizeEmail\<close> and \<open>isURL\<close>, and the number of characters
  that \<open>validator\<close>'s \<open>isLength\<close> counts in a string (it does not count every code unit: a
  surrogate pair is one character to it).
\<close>

record validator_lib =
  v_xss :: "jstring \<Rightarrow> jstring"
  v_isEmail :: "jstring \<Rightarrow> bool"
  v_normalizeEmail :: "jstring \<Rightarrow> jstring"
  v_isURL :: "jstring \<Rightarrow> bool"
  v_length :: "jstring \<Rightarrow> nat"

text \<open>
  The steps of a chain. A validator carries the message of its \<open>withMessage\<close>; \<open>isLength\<close>
  has a lower bound (0 when none is given) and an optional upper bound; \<open>matches\<close> carries
  the test of its regular expression; \<open>CustomSanitizer\<close> is \<open>customSanitizer(sanitizeInput)\<close>.
  \<open>Trim\<close> is \<open>validator\<close>'s \<open>trim\<close> without a character list, which removes \<open>\s\<close> from both
  ends; \<open>notEmpty\<close> fails on the string of length 0.
\<close>

datatype rule =
    Trim
  | NotEmpty string
  | IsLength nat "nat option" string
  | Matches "jstring \<Rightarrow> bool" string
  | IsEmail string
  | NormalizeEmail
  | IsURL string
  | CustomSanitizer

text \<open>One step on the field's current value: the message of a failed check, and the value
  the next step sees.\<close>

fun apply_rule :: "validator_lib \<Rightarrow> rule \<Rightarrow> jstring \<Rightarrow> string list \<times> jstring" where
  "apply_rule lib Trim v = ([], trim v)"
| "apply_rule lib (NotEmpty m) v = (if v = [] then [m] else [], v)"
| "apply_rule lib (IsLength lo hi m) v =
     (if lo \<le> v_length lib v \<and> (case hi of None \<Rightarrow> True | Some h \<Rightarrow> v_length lib v \<le> h)
      then [] else [m], v)"
| "apply_rule lib (Matches re m) v = (if re v then [] else [m], v)"
| "apply_rule lib (IsEmail m) v = (if v_isEmail lib v then [] else [m], v)"
| "apply_rule lib NormalizeEmail v = ([], v_normalizeEmail lib v)"
| "apply_rule lib (IsURL m) v = (if v_isURL lib v then [] else [m], v)"
| "apply_rule lib CustomSanitizer v =
     ([], case sanitizeInput (v_xss lib) (JString v) of JString s \<Rightarrow> s | _ \<Rightarrow> v)"

text \<open>
  The steps of a chain run in order on the field's current value, and a failed check does
  not stop the chain. The chain of a field marked \<open>optional({ checkFalsy: true })\<close> runs a
  step only while the value is truthy: the marking is tested again before every step, so a
  value that is the empty string, or that a sanitizer has turned into it, skips all the
  steps that remain.
\<close>

fun run_rules ::
  "validator_lib \<Rightarrow> bool \<Rightarrow> rule list \<Rightarrow> jstring \<Rightarrow> string list \<times> jstring" where
  "run_rules lib optional [] v = ([], v)"
| "run_rules lib optional (r # rs) v =
     (if optional \<and> v = [] then ([], v)
      else (let (ms, v') = apply_rule lib r v; (ms', v'') = run_rules lib optional rs v'
            in (ms @ ms', v'')))"

text \<open>\<open>body(field)\<close> with its steps. The errors carry the field's name as their path.\<close>

definition run_chain ::
  "validator_lib \<Rightarrow> string \<Rightarrow> bool \<Rightarrow> rule list \<Rightarrow> jstring \<Rightarrow> (string \<times> string) list \<times> jstring" where
  "run_chain lib field optional rules v =
     (let (ms, v') = run_rules lib optional rules v in (map (\<lambda>m. (field, m)) ms, v'))"

text \<open>
  The phone expression \<open>/^[\d\s\-\(\)\+\.]+$/\<close>: one or more characters, each a digit, white
  space or one of \<open>- ( ) + .\<close>
\<close>

definition phone_re :: "jstring \<Rightarrow> bool" where
  "phone_re s = (s \<noteq> [] \<and> (\<forall>c \<in> set s. is_digit c \<or> is_space c \<or> c \<in> set (js ''-()+.'')))"

text \<open>\<open>chiropractorValidation\<close>: the errors of the eight chains in order, and the body with
  the values the chains leave in it.\<close>

definition chiropractorValidation ::
  "validator_lib \<Rightarrow> chiro_input \<Rightarrow> (string \<times> string) list \<times> chiro_input" where
  "chiropractorValidation lib b =
     (let (e1, name) = run_chain lib ''name'' False
            [Trim, NotEmpty ''Name is required'',
             IsLength 2 (Some 255) ''Name must be between 2 and 255 characters'',
             CustomSanitizer] (ci_name b);
          (e2, state) = run_chain lib ''state'' False
            [Trim, NotEmpty ''State is required'',
             IsLength 0 (Some 100) ''State must be less than 100 characters'',
             CustomSanitizer] (ci_state b);
          (e3, address) = run_chain lib ''address'' False
            [Trim, NotEmpty ''Address is required'',
             IsLength 0 (Some 500) ''Address must be less than 500 characters'',
             CustomSanitizer] (ci_address b);
          (e4, phone) = run_chain lib ''phone'' False
            [Trim, NotEmpty ''Phone is required'',
             Matches phone_re ''Invalid phone number format'',
             IsLength 0 (Some 50) ''Phone must be less than 50 characters''] (ci_phone b);
          (e5, email) = run_chain lib ''email'' False
            [Trim, NotEmpty ''Email is required'', IsEmail ''Invalid email address'',
             NormalizeEmail,
             IsLength 0 (Some 255) ''Email must be less than 255 characters''] (ci_email b);
          (e6, website) = run_chain lib ''website'' True
            [Trim, IsURL ''Invalid website URL'',
             IsLength 0 (Some 500) ''Website URL must be less than 500 characters'']
            (ci_website b);
          (e7, specialty) = run_chain lib ''specialty'' True
            [Trim, IsLength 0 (Some 255) ''Specialty must be less than 255 characters'',
             CustomSanitizer] (ci_specialty b);
          (e8, description) = run_chain lib ''description'' True
            [Trim, CustomSanitizer] (ci_description b)
      in (e1 @ e2 @ e3 @ e4 @ e5 @ e6 @ e7 @ e8,
          b\<lparr>ci_name := name, ci_state := state, ci_address := address, ci_phone := phone,
            ci_email := email, ci_website := website, ci_specialty := specialty,
            ci_description := description\<rparr>))"

text \<open>
  \<open>handleValidationErrors\<close>: with errors, the 400 response listing each error's field and
  message, and \<open>next\<close> is not called; without, the next handler runs.
\<close>

definition handleValidationErrors ::
  "(string \<times> string) list \<Rightarrow> (db \<Rightarrow> response \<times> db) \<Rightarrow> db \<Rightarrow> response \<times> db" where
  "handleValidationErrors errors next d =
     (if errors \<noteq> [] then (reply 400 (Validation_failed errors), d) else next d)"

subsection \<open>The Listing write routes with their middleware\<close>

text \<open>
  \<open>verifyToken\<close>, \<open>isAdmin\<close>, the validation chains, \<open>handleValidationErrors\<close> and the
  handler, in the order the router lists them.
\<close>

definition route_post_chiropractor ::
  "(jstring \<Rightarrow> jwt_result) \<Rightarrow> validator_lib \<Rightarrow> env \<Rightarrow> request \<Rightarrow> chiro_input \<Rightarrow> db \<Rightarrow>
   response \<times> db" where
  "route_post_chiropractor jwt_verify lib e req b d =
     (case verifyToken jwt_verify d req of
        (Some r, _) \<Rightarrow> (r, d)
      | (None, req') \<Rightarrow>
          (case isAdmin req' of
             Inl r \<Rightarrow> (r, d)
           | Inr actor \<Rightarrow>
               (let (errors, b') = chiropractorValidation lib b
                in handleValidationErrors errors
                     (post_chiropractor e actor (req_ip req') b') d)))"

definition route_put_chiropractor ::
  "(jstring \<Rightarrow> jwt_result) \<Rightarrow> validator_lib \<Rightarrow> env \<Rightarrow> request \<Rightarrow> nat \<Rightarrow> chiro_input \<Rightarrow> db \<Rightarrow>
   response \<times> db" where
  "route_put_chiropractor jwt_verify lib e req i b d =
     (case verifyToken jwt_verify d req of
        (Some r, _) \<Rightarrow> (r, d)
      | (None, req') \<Rightarrow>
          (case isAdmin req' of
             Inl r \<Rightarrow> (r, d)
           | Inr actor \<Rightarrow>
               (let (errors, b') = chiropractorValidation lib b
                in handleValidationErrors (idValidation i @ errors)
                     (put_chiropractor e actor (req_ip req') i b') d)))"

definition route_delete_chiropractor ::
  "(jstring \<Rightarrow> jwt_result) \<Rightarrow> env \<Rightarrow> request \<Rightarrow> nat \<Rightarrow> db \<Rightarrow> response \<times> db" where
  "route_delete_chiropractor jwt_verify e req i d =
     (case verifyToken jwt_verify d req of
        (Some r, _) \<Rightarrow> (r, d)
      | (None, req') \<Rightarrow>
          (case isAdmin req' of
             Inl r \<Rightarrow> (r, d)
           | Inr actor \<Rightarrow>
               handleValidationErrors (idValidation i)
                 (delete_chiropractor e actor (req_ip req') i) d))"


section \<open>What the audit trail holds\<close>

text \<open>
  The vocabulary for the audit claims. \<open>appended_one old new P\<close>: the log \<open>new\<close> is the log
  \<open>old\<close> with exactly one entry added, and that entry satisfies \<open>P\<close>.
\<close>

definition appended_one :: "audit list \<Rightarrow> audit list \<Rightarrow> (audit \<Rightarrow> bool) \<Rightarrow> bool" where
  "appended_one old new P =
     (case drop (length old) new of
        [a] \<Rightarrow> take (length old) new = old \<and> P a
      | _ \<Rightarrow> False)"

definition first_of :: "'a list \<Rightarrow> ('a \<Rightarrow> 'b) \<Rightarrow> 'b option" where
  "first_of rows f = (case rows of [] \<Rightarrow> None | r # _ \<Rightarrow> Some (f r))"

text \<open>
  The state of a record in a database, as a snapshot: the whole row of the listing, post or
  setting with the identifier, absent when there is no such row.
\<close>

definition entity_snapshot :: "string \<Rightarrow> nat \<Rightarrow> db \<Rightarrow> snapshot option" where
  "entity_snapshot t i d =
     (if t = ''chiropractor'' then first_of (select_chiropractor i d) Chiro_row
      else if t = ''blog_post'' then first_of (select_blog_post i d) Post_row
      else if t = ''setting'' then first_of (filter (\<lambda>s. s_id s = i) (site_settings d)) Setting_row
      else None)"

text \<open>
  A complete entry for the record \<open>(t, i)\<close>: type and identifier name the record, the old
  snapshot is its state before the request and the new snapshot its state after.
\<close>

definition full_record :: "string \<Rightarrow> nat \<Rightarrow> db \<Rightarrow> db \<Rightarrow> audit \<Rightarrow> bool" where
  "full_record t i d d' a =
     (a_entity_type a = Some t \<and> a_entity_id a = Some i \<and>
      a_old_values a = entity_snapshot t i d \<and> a_new_values a = entity_snapshot t i d')"

text \<open>An entry that names the record \<open>(t, i)\<close> and holds the given snapshots.\<close>

definition names_record ::
  "string \<Rightarrow> nat \<Rightarrow> snapshot option \<Rightarrow> snapshot option \<Rightarrow> audit \<Rightarrow> bool" where
  "names_record t i old new a =
     (a_entity_type a = Some t \<and> a_entity_id a = Some i \<and>
      a_old_values a = old \<and> a_new_values a = new)"

text \<open>
  What each endpoint's entry holds. Creating, updating and permanently deleting a listing,
  creating, updating and deleting a post, and creating a setting write a complete entry.
  The soft delete keeps the old row only; restore and the two account endpoints keep no
  snapshot; toggling publication and updating a setting keep the one field that changes;
  deleting a setting keeps the old row; the bulk update writes one entry
  for the request, of type \<open>settings\<close>, holding the submitted object.
\<close>

fun logged :: "admin_write \<Rightarrow> db \<Rightarrow> db \<Rightarrow> audit \<Rightarrow> bool" where
  "logged (Create_listing b) d d' a = full_record ''chiropractor'' (chiropractors_seq d) d d' a"
| "logged (Update_listing i b) d d' a = full_record ''chiropractor'' i d d' a"
| "logged (Permanent_delete_listing i) d d' a = full_record ''chiropractor'' i d d' a"
| "logged (Create_post b) d d' a = full_record ''blog_post'' (blog_posts_seq d) d d' a"
| "logged (Update_post i b) d d' a = full_record ''blog_post'' i d d' a"
| "logged (Delete_post i) d d' a = full_record ''blog_post'' i d d' a"
| "logged (Create_setting b) d d' a = full_record ''setting'' (site_settings_seq d) d d' a"
| "logged (Delete_listing i) d d' a =
     names_record ''chiropractor'' i (entity_snapshot ''chiropractor'' i d) None a"
| "logged (Restore_listing i) d d' a = names_record ''chiropractor'' i None None a"
| "logged (Toggle_publish i) d d' a =
     names_record ''blog_post'' i
       (first_of (select_blog_post i d) (\<lambda>p. Is_published (p_is_published p)))
       (first_of (select_blog_post i d') (\<lambda>p. Is_published (p_is_published p))) a"
| "logged (Update_setting k v) d d' a =
     (a_entity_type a = Some ''setting'' \<and>
      a_entity_id a = first_of (select_setting k d) s_id \<and>
      a_old_values a = first_of (select_setting k d) (\<lambda>s. Setting_value (s_value s)) \<and>
      a_new_values a = first_of (select_setting k d') (\<lambda>s. Setting_value (s_value s)))"
| "logged (Delete_setting k) d d' a =
     (a_entity_type a = Some ''setting'' \<and>
      a_old_values a = first_of (select_setting k d) Setting_row \<and> a_new_values a = None)"
| "logged (Bulk_update_settings kvs) d d' a =
     (a_entity_type a = Some ''settings'' \<and> a_entity_id a = None \<and>
      a_old_values a = None \<and> a_new_values a = map_option Settings_payload kvs)"
| "logged (Create_account b) d d' a = names_record ''user'' (users_seq d) None None a"
| "logged (Toggle_account i) d d' a = names_record ''user'' i None None a"

text \<open>A sequence has not yet given out the identifiers it will give: the rows' identifiers
  lie below its next value.\<close>

definition sequences_fresh :: "db \<Rightarrow> bool" where
  "sequences_fresh d =
     ((\<forall>c \<in> set (chiropractors d). c_id c < chiropractors_seq d) \<and>
      (\<forall>p \<in> set (blog_posts d). p_id p < blog_posts_seq d) \<and>
      (\<forall>s \<in> set (site_settings d). s_id s < site_settings_seq d))"

text \<open>Two databases with the same entity tables.\<close>

definition same_entities :: "db \<Rightarrow> db \<Rightarrow> bool" where
  "same_entities d d' =
     (users d = users d' \<and> chiropractors d = chiropractors d' \<and>
      blog_posts d = blog_posts d' \<and> site_settings d = site_settings d')"


text \<open>
  A request during which the audit statement raised, set against the same request with a
  working audit store: it did not succeed (with a 500 where the other succeeded), it added
  nothing to the log, and it left the entity tables as the other did.
\<close>

definition kept_without_audit :: "response \<times> db \<Rightarrow> response \<times> db \<Rightarrow> db \<Rightarrow> bool" where
  "kept_without_audit failed worked d =
     (\<not> succeeded (fst failed) \<and>
      (succeeded (fst worked) \<longrightarrow> status (fst failed) = 500) \<and>
      audit_log (snd failed) = audit_log d \<and>
      same_entities (snd failed) (snd worked))"

section \<open>Sample data\<close>

text \<open>A small database and the stand-ins for the library functions, for concrete runs.\<close>

definition demo_users :: "user list" where
  "demo_users =
     [\<lparr>user_id = 1, user_email = js ''admin@example.com'', user_password = js ''hash-a'',
       user_name = js ''Administrator'', user_role = js ''admin'', user_is_active = True,
       user_created_at = 0, user_updated_at = 0\<rparr>,
      \<lparr>user_id = 2, user_email = js ''old@example.com'', user_password = js ''hash-b'',
       user_name = js ''Former'', user_role = js ''admin'', user_is_active = False,
       user_created_at = 0, user_updated_at = 0\<rparr>]"

definition demo_db :: db where
  "demo_db =
     \<lparr>users = demo_users, chiropractors = [], blog_posts = [], site_settings = [],
      audit_log = [], users_seq = 3, chiropractors_seq = 1, blog_posts_seq = 1,
      site_settings_seq = 1, audit_log_seq = 1\<rparr>"

definition demo_jwt_verify :: "jstring \<Rightarrow> jwt_result" where
  "demo_jwt_verify t =
     (if t = js ''expired'' then TokenExpiredError
      else if t = js ''former'' then Decoded (Some 2)
      else if t = js ''admin'' then Decoded (Some 1)
      else JsonWebTokenError)"

definition bearer :: "jstring \<Rightarrow> request" where
  "bearer t =
     \<lparr>req_authorization = Some (js ''Bearer '' @ t), req_cookie_token = None,
      req_ip = js ''10.0.0.1'', req_user_agent = None, req_user = None\<rparr>"

text \<open>A stand-in for the open part of the case mapping: a code unit it is asked about stays
  as it is.\<close>

definition keep_unit :: "jstring \<Rightarrow> nat \<Rightarrow> jstring" where
  "keep_unit s i = [s ! i]"

definition demo_env :: env where
  "demo_env = \<lparr>now = 1000, store_ok = True, audit_ok = True, case_map = keep_unit\<rparr>"

definition later_env :: env where
  "later_env = \<lparr>now = 2000, store_ok = True, audit_ok = True, case_map = keep_unit\<rparr>"

text \<open>A request during which the audit statement raises.\<close>

definition failing_env :: env where
  "failing_env = \<lparr>now = 1000, store_ok = True, audit_ok = False, case_map = keep_unit\<rparr>"


definition demo_admin :: identity where
  "demo_admin = identity_of (demo_users ! 0)"

definition demo_chiro :: chiro where
  "demo_chiro =
     \<lparr>c_id = 1, c_name = js ''Dr. Sarah Johnson'', c_state = js ''California'',
      c_address = js ''123 Main Street, Los Angeles, CA 90001'', c_phone = js ''(555) 123-4567'',
      c_email = js ''sarah.johnson@chiro.com'',
      c_website = Some (js ''https://www.sarahjohnsonchiro.com''),
      c_specialty = Some (js ''Sports Injury & Rehabilitation''), c_description = None,
      c_is_featured = True, c_is_active = True, c_created_at = 10, c_updated_at = 10\<rparr>"

definition demo_post :: post where
  "demo_post =
     \<lparr>p_id = 1, p_title = js ''Understanding Spinal Alignment'',
      p_slug = js ''understanding-spinal-alignment'', p_content = js ''Spinal alignment is crucial.'',
      p_excerpt = js ''Learn about spinal alignment.'', p_author = js ''Dr. Michael Chen'',
      p_featured_image = None, p_tags = [js ''Education''],
      p_meta_title = js ''Understanding Spinal Alignment'',
      p_meta_description = js ''Learn about spinal alignment.'', p_is_published = True,
      p_views = 7, p_created_at = 20, p_updated_at = 20, p_published_at = Some 20\<rparr>"

definition demo_settings :: "setting list" where
  "demo_settings =
     [\<lparr>s_id = 1, s_key = js ''site_name'', s_value = Some (js ''Just Chiropractor''), s_type = js ''text'',
       s_description = js ''The name of the website'', s_created_at = 0, s_updated_at = 0\<rparr>,
      \<lparr>s_id = 2, s_key = js ''primary_color'', s_value = Some (js ''#2563eb''), s_type = js ''color'',
       s_description = js ''Primary brand color'', s_created_at = 0, s_updated_at = 0\<rparr>]"

text \<open>A database with one listing, one post and two settings.\<close>

definition site_db :: db where
  "site_db =
     \<lparr>users = demo_users, chiropractors = [demo_chiro], blog_posts = [demo_post],
      site_settings = demo_settings, audit_log = [], users_seq = 3, chiropractors_seq = 2,
      blog_posts_seq = 2, site_settings_seq = 3, audit_log_seq = 1\<rparr>"

definition demo_lib :: validator_lib where
  "demo_lib =
     \<lparr>v_xss = (\<lambda>s. s), v_isEmail = (\<lambda>s. of_char CHR ''@'' \<in> set s), v_normalizeEmail = (\<lambda>s. s),
      v_isURL = starts_with (js ''http''), v_length = length\<rparr>"

definition demo_input :: chiro_input where
  "demo_input =
     \<lparr>ci_name = js ''Dr. Lisa Anderson'', ci_state = js ''Illinois'',
      ci_address = js ''654 Lake Shore Dr, Chicago, IL 60601'', ci_phone = js ''abc'',
      ci_email = js ''lisa.anderson@chiro.com'', ci_website = [], ci_specialty = [],
      ci_description = [], ci_is_featured = False\<rparr>"

definition demo_post_input :: post_input where
  "demo_post_input =
     \<lparr>pi_title = js ''Understanding Spinal Alignment'',
      pi_content = js ''A second look at spinal alignment and why posture matters every day.'',
      pi_author = js ''Dr. Emily Rodriguez'', pi_excerpt = [], pi_featured_image = [],
      pi_tags = [], pi_meta_title = [], pi_meta_description = [], pi_is_published = None\<rparr>"

definition valid_input :: chiro_input where
  "valid_input = demo_input\<lparr>ci_phone := js ''(555) 567-8901''\<rparr>"

definition demo_bulk :: "(jstring \<times> jstring option) list" where
  "demo_bulk = [(js ''site_name'', Some (js ''Spine Directory'')), (js ''primary_color'', Some (js ''#000000''))]"

text \<open>
  A stand-in for the \<open>xss\<close> filter that can be told from the identity: it writes \<open>&lt;\<close> for
  every \<open><\<close>. With it, a payload whose name holds markup and whose phone is "abc".
\<close>

definition escape_lt :: "jstring \<Rightarrow> jstring" where
  "escape_lt s = concat (map (\<lambda>c. if c = of_char CHR ''<'' then js ''&lt;'' else [c]) s)"

definition escaping_lib :: validator_lib where
  "escaping_lib = demo_lib\<lparr>v_xss := escape_lt\<rparr>"

definition markup_input :: chiro_input where
  "markup_input = demo_input\<lparr>ci_name := js ''<b>Lisa</b>''\<rparr>"

section \<open>Properties of the slug generator\<close>

lemma js_hyphen: "js ''-'' = [hyphen]"
  by (simp add: js_def hyphen_def)

lemma slug_char_not_hyphen: "is_slug_char c \<Longrightarrow> \<not> is_hyphen c"
  by (auto simp: is_slug_char_def is_hyphen_def hyphen_def is_lower_def is_digit_def)

lemma hyphen_not_slug_char: "\<not> is_slug_char hyphen"
  by (simp add: is_slug_char_def hyphen_def is_lower_def is_digit_def)

lemma skip_non_slug_cases:
  obtains "skip_non_slug cs = []" | e es where "skip_non_slug cs = e # es" "is_slug_char e"
proof (cases "skip_non_slug cs")
  case Nil
  then show ?thesis by (rule that(1))
next
  case (Cons e es)
  then have "is_slug_char e"
    using hd_dropWhile [of "\<lambda>d. \<not> is_slug_char d" cs] by (simp add: skip_non_slug_def)
  with Cons show ?thesis by (rule that(2))
qed

lemma skip_non_slug_Cons:
  "skip_non_slug (c # cs) = (if is_slug_char c then c # cs else skip_non_slug cs)"
  by (simp add: skip_non_slug_def)

lemma skip_non_slug_Nil_iff:
  "skip_non_slug s = [] \<longleftrightarrow> \<not> (\<exists>c \<in> set s. is_slug_char c)"
  by (auto simp: skip_non_slug_def dropWhile_eq_Nil_conv)

lemma replace_non_slug_takeWhile:
  "replace_non_slug xs =
     takeWhile is_slug_char xs @ replace_non_slug (dropWhile is_slug_char xs)"
  by (induction xs) auto

text \<open>The source's scan computes the run-by-run replacement of the specification.\<close>

lemma replace_non_slug_runs:
  "replace_non_slug s =
     concat (map (\<lambda>r. if is_slug_char (hd r) then r else js ''-'')
       (maximal_runs is_slug_char s))"
proof (induction is_slug_char s rule: maximal_runs.induct)
  case 1
  show ?case by simp
next
  case (2 x xs)
  show ?case
  proof (cases "is_slug_char x")
    case True
    then have eq: "(\<lambda>y. is_slug_char y = is_slug_char x) = is_slug_char" by auto
    from True 2 show ?thesis
      using replace_non_slug_takeWhile [of xs] by (simp add: eq)
  next
    case False
    then have eq: "(\<lambda>y. is_slug_char y = is_slug_char x) = (\<lambda>d. \<not> is_slug_char d)"
      by auto
    from False 2 show ?thesis by (simp add: eq skip_non_slug_def js_hyphen)
  qed
qed

lemma strip_trailing_Nil: "strip_trailing [] = []"
  by (simp add: strip_trailing_def)

text \<open>Stripping the trailing hyphens, read from the front of the string.\<close>

lemma strip_trailing_Cons:
  "strip_trailing (c # cs) =
     (if is_hyphen c \<and> strip_trailing cs = [] then [] else c # strip_trailing cs)"
proof (cases "\<forall>x \<in> set cs. is_hyphen x")
  case True
  then have "dropWhile is_hyphen (rev cs @ [c]) = dropWhile is_hyphen [c]"
    by (intro dropWhile_append2) simp
  with True show ?thesis
    by (simp add: strip_trailing_def dropWhile_eq_Nil_conv)
next
  case False
  then obtain x where "x \<in> set (rev cs)" "\<not> is_hyphen x" by auto
  then have "dropWhile is_hyphen (rev cs @ [c]) = dropWhile is_hyphen (rev cs) @ [c]"
    by (rule dropWhile_append1)
  with False show ?thesis
    by (simp add: strip_trailing_def dropWhile_eq_Nil_conv)
qed

text \<open>
  After the first replacement a leading hyphen stands for the leading run outside
  \<open>[a-z0-9]\<close>, so stripping it is the same as skipping that run first.
\<close>

lemma strip_leading_replace:
  "strip_leading (replace_non_slug v) = replace_non_slug (skip_non_slug v)"
proof (cases v)
  case Nil
  then show ?thesis by (simp add: strip_leading_def skip_non_slug_def)
next
  case (Cons c cs)
  show ?thesis
  proof (cases "is_slug_char c")
    case True
    with Cons show ?thesis
      by (simp add: strip_leading_def slug_char_not_hyphen skip_non_slug_Cons)
  next
    case False
    show ?thesis
    proof (cases cs rule: skip_non_slug_cases)
      case 1
      with Cons False show ?thesis
        by (simp add: strip_leading_def is_hyphen_def skip_non_slug_Cons)
    next
      case (2 e es)
      with Cons False show ?thesis
        by (simp add: strip_leading_def is_hyphen_def skip_non_slug_Cons
            slug_char_not_hyphen [unfolded is_hyphen_def])
    qed
  qed
qed

text \<open>
  The automaton accepts the stripped replacement from its accepting state, and from its
  start state as soon as the input begins with a character of \<open>[a-z0-9]\<close>.
\<close>

lemma slug_re_strip_replace:
  "slug_re_from True (strip_trailing (replace_non_slug v)) \<and>
   (v \<noteq> [] \<and> is_slug_char (hd v) \<longrightarrow>
      slug_re_from False (strip_trailing (replace_non_slug v)) \<and>
      strip_trailing (replace_non_slug v) \<noteq> [])"
proof (induction v rule: replace_non_slug.induct)
  case 1
  show ?case by (simp add: strip_trailing_Nil)
next
  case (2 c cs)
  show ?case
  proof (cases "is_slug_char c")
    case True
    with 2 show ?thesis
      by (simp add: strip_trailing_Cons slug_char_not_hyphen)
  next
    case False
    note IH = 2(2) [OF False]
    show ?thesis
    proof (cases cs rule: skip_non_slug_cases)
      case 1
      with False show ?thesis
        by (simp add: strip_trailing_Cons strip_trailing_Nil is_hyphen_def)
    next
      case (2 e es)
      with IH False show ?thesis
        by (simp add: strip_trailing_Cons is_hyphen_def hyphen_not_slug_char)
    qed
  qed
qed

lemma createSlug_base:
  "createSlug u t [] = strip_trailing (replace_non_slug (skip_non_slug (toLowerCase u t)))"
  by (simp add: createSlug_def strip_hyphens_def strip_leading_replace)

text \<open>The slug is empty exactly when lower-casing leaves no character of \<open>[a-z0-9]\<close>.\<close>

lemma createSlug_Nil_iff:
  "createSlug u t [] = [] \<longleftrightarrow> \<not> (\<exists>c \<in> set (toLowerCase u t). is_slug_char c)"
proof (cases "toLowerCase u t" rule: skip_non_slug_cases)
  case 1
  then show ?thesis
    using skip_non_slug_Nil_iff [of "toLowerCase u t"]
    by (simp add: createSlug_base strip_trailing_Nil)
next
  case (2 e es)
  with slug_re_strip_replace [of "e # es"] skip_non_slug_Nil_iff [of "toLowerCase u t"]
  show ?thesis
    by (simp add: createSlug_base)
qed

lemma createSlug_matches:
  "matches_slug_re (createSlug u t []) \<or> createSlug u t [] = []"
proof (cases "toLowerCase u t" rule: skip_non_slug_cases)
  case 1
  then show ?thesis by (simp add: createSlug_base strip_trailing_Nil)
next
  case (2 e es)
  with slug_re_strip_replace [of "e # es"] show ?thesis
    by (simp add: createSlug_base matches_slug_re_def)
qed

text \<open>The characters that lower-casing writes for one code unit of the input.\<close>

lemma set_toLowerCase:
  "set (toLowerCase u t) = (\<Union>i \<in> {..<length t}. set (lower_at u t i))"
  by (auto simp: toLowerCase_def)

text \<open>
  Which code units of the input give a character of \<open>[a-z0-9]\<close>: the ASCII letters and
  digits, the Kelvin sign and the capital I with dot above, as long as the open part of the
  case mapping writes no such character.
\<close>

lemma lower_at_slug_char:
  assumes "\<forall>s i. \<not> is_ascii (s ! i) \<and> s ! i \<noteq> 8490 \<and> s ! i \<noteq> 304 \<longrightarrow>
       \<not> (\<exists>c \<in> set (u s i). is_slug_char c)"
  shows "(\<exists>c \<in> set (lower_at u t i). is_slug_char c) \<longleftrightarrow>
         is_alnum (t ! i) \<or> t ! i = 8490 \<or> t ! i = 304"
proof (cases "is_ascii (t ! i)")
  case True
  then show ?thesis
    by (auto simp: lower_at_def Let_def is_slug_char_def is_alnum_def is_upper_def
        is_lower_def is_digit_def is_ascii_def)
next
  case False
  with assms have "t ! i \<noteq> 8490 \<and> t ! i \<noteq> 304 \<longrightarrow> \<not> (\<exists>c \<in> set (u t i). is_slug_char c)"
    by blast
  with False show ?thesis
    by (auto simp: lower_at_def Let_def js_def is_slug_char_def is_alnum_def is_upper_def
        is_lower_def is_digit_def is_ascii_def)
qed

lemma toLowerCase_slug_char:
  assumes "\<forall>s i. \<not> is_ascii (s ! i) \<and> s ! i \<noteq> 8490 \<and> s ! i \<noteq> 304 \<longrightarrow>
       \<not> (\<exists>c \<in> set (u s i). is_slug_char c)"
  shows "(\<exists>c \<in> set (toLowerCase u t). is_slug_char c) \<longleftrightarrow>
         (\<exists>c \<in> set t. is_alnum c \<or> c = 8490 \<or> c = 304)"
proof -
  have "(\<exists>c \<in> set (toLowerCase u t). is_slug_char c) \<longleftrightarrow>
        (\<exists>i < length t. \<exists>c \<in> set (lower_at u t i). is_slug_char c)"
    by (auto simp: set_toLowerCase)
  also have "\<dots> \<longleftrightarrow> (\<exists>i < length t. is_alnum (t ! i) \<or> t ! i = 8490 \<or> t ! i = 304)"
    using lower_at_slug_char [OF assms] by simp
  also have "\<dots> \<longleftrightarrow> (\<exists>c \<in> set t. is_alnum c \<or> c = 8490 \<or> c = 304)"
    by (metis in_set_conv_nth)
  finally show ?thesis .
qed

text \<open>On a string of ASCII characters lower-casing is the mapping of \<open>A\<close> to \<open>Z\<close> alone.\<close>

lemma toLowerCase_ascii:
  assumes "\<forall>c \<in> set t. is_ascii c"
  shows "toLowerCase u t = map (\<lambda>c. if is_upper c then c + 32 else c) t"
proof -
  have "map (lower_at u t) [0..<length t] =
        map (\<lambda>i. [if is_upper (t ! i) then t ! i + 32 else t ! i]) [0..<length t]"
    using assms by (intro map_cong) (auto simp: lower_at_def Let_def)
  then have "toLowerCase u t =
        concat (map (\<lambda>i. [if is_upper (t ! i) then t ! i + 32 else t ! i]) [0..<length t])"
    by (simp only: toLowerCase_def)
  also have "\<dots> = map (\<lambda>i. if is_upper (t ! i) then t ! i + 32 else t ! i) [0..<length t]"
    by (rule concat_map_singleton)
  also have "\<dots> = map (\<lambda>c. if is_upper c then c + 32 else c) (map (nth t) [0..<length t])"
    by (simp add: comp_def)
  finally show ?thesis by (simp add: map_nth)
qed

lemma toLowerCase_ascii_slug_char:
  assumes "\<forall>c \<in> set t. is_ascii c"
  shows "(\<exists>c \<in> set (toLowerCase u t). is_slug_char c) \<longleftrightarrow> (\<exists>c \<in> set t. is_alnum c)"
proof -
  have "is_slug_char (if is_upper c then c + 32 else c) = is_alnum c" for c
    by (auto simp: is_slug_char_def is_alnum_def is_upper_def is_lower_def is_digit_def)
  then show ?thesis
    unfolding toLowerCase_ascii [OF assms] by (simp only: set_map bex_simps)
qed

lemma example_title_ascii:
  "\<forall>c \<in> set (js ''5 Benefits of Regular Chiropractic Care''). is_ascii c"
  by code_simp

lemma example_title_slug:
  "strip_hyphens (replace_non_slug
     (map (\<lambda>c. if is_upper c then c + 32 else c)
        (js ''5 Benefits of Regular Chiropractic Care''))) =
   js ''5-benefits-of-regular-chiropractic-care''"
  by code_simp

text \<open>
  Claim C4. For every title and every case mapping of the characters the model leaves
  open, \<open>createSlug\<close> (the specification's \<open>slugify\<close>) lower-cases the input, replaces each
  maximal run of characters outside \<open>[a-z0-9]\<close> by one hyphen and strips leading and
  trailing hyphens; its output matches \<open>^[a-z0-9]+(-[a-z0-9]+)*$\<close> or is empty, and it is
  empty exactly when the lower-cased input has no character of \<open>[a-z0-9]\<close>. For a title of
  ASCII characters that is: when the title has no alphanumeric character. For any title,
  given that the open part of the case mapping writes no character of \<open>[a-z0-9]\<close>, it is:
  when the title has no alphanumeric character, no Kelvin sign U+212A and no capital I with
  dot above U+0130. The title "5 Benefits of Regular Chiropractic Care" gives
  "5-benefits-of-regular-chiropractic-care".
\<close>

theorem createSlug_slugify:
  "createSlug u t [] = slugify_spec u t \<and>
   (matches_slug_re (createSlug u t []) \<or> createSlug u t [] = []) \<and>
   (createSlug u t [] = [] \<longleftrightarrow> \<not> (\<exists>c \<in> set (toLowerCase u t). is_slug_char c)) \<and>
   ((\<forall>c \<in> set t. is_ascii c) \<longrightarrow>
      (createSlug u t [] = [] \<longleftrightarrow> \<not> (\<exists>c \<in> set t. is_alnum c))) \<and>
   ((\<forall>s i. \<not> is_ascii (s ! i) \<and> s ! i \<noteq> 8490 \<and> s ! i \<noteq> 304 \<longrightarrow>
       \<not> (\<exists>c \<in> set (u s i). is_slug_char c)) \<longrightarrow>
      (createSlug u t [] = [] \<longleftrightarrow> \<not> (\<exists>c \<in> set t. is_alnum c \<or> c = 8490 \<or> c = 304))) \<and>
   createSlug u (js ''5 Benefits of Regular Chiropractic Care'') [] =
     js ''5-benefits-of-regular-chiropractic-care''"
proof -
  have a: "createSlug u t [] = slugify_spec u t"
    by (simp add: createSlug_def slugify_spec_def replace_non_slug_runs)
  have b: "matches_slug_re (createSlug u t []) \<or> createSlug u t [] = []"
    by (rule createSlug_matches)
  have c: "createSlug u t [] = [] \<longleftrightarrow> \<not> (\<exists>c \<in> set (toLowerCase u t). is_slug_char c)"
    by (rule createSlug_Nil_iff)
  have d: "(\<forall>c \<in> set t. is_ascii c) \<longrightarrow>
      (createSlug u t [] = [] \<longleftrightarrow> \<not> (\<exists>c \<in> set t. is_alnum c))"
    using createSlug_Nil_iff [of u t] toLowerCase_ascii_slug_char [of t u] by blast
  have e: "(\<forall>s i. \<not> is_ascii (s ! i) \<and> s ! i \<noteq> 8490 \<and> s ! i \<noteq> 304 \<longrightarrow>
       \<not> (\<exists>c \<in> set (u s i). is_slug_char c)) \<longrightarrow>
      (createSlug u t [] = [] \<longleftrightarrow> \<not> (\<exists>c \<in> set t. is_alnum c \<or> c = 8490 \<or> c = 304))"
    using createSlug_Nil_iff [of u t] toLowerCase_slug_char [of u t] by blast
  have f: "createSlug u (js ''5 Benefits of Regular Chiropractic Care'') [] =
     js ''5-benefits-of-regular-chiropractic-care''"
    unfolding createSlug_def toLowerCase_ascii [OF example_title_ascii] Let_def
    using example_title_slug by simp
  show ?thesis
    by (intro conjI) (rule a, rule b, rule c, rule d, rule e, rule f)
qed

text \<open>
  The claim as the specification words it, with the emptiness read on the input itself,
  fails outside ASCII: the title that is the Kelvin sign alone has no character of
  \<open>[A-Za-z0-9]\<close>, and its slug is \<open>k\<close>.
\<close>

theorem slug_of_kelvin_sign_counterexample:
  "createSlug keep_unit [8490] [] = js ''k'' \<and> createSlug keep_unit [8490] [] \<noteq> [] \<and>
   \<not> list_ex is_alnum [8490]"
  by code_simp

theorem createSlug_slugify_witness:
  "createSlug keep_unit (js ''Back & Neck'') [] = slugify_spec keep_unit (js ''Back & Neck'') \<and>
   createSlug keep_unit (js ''Back & Neck'') [] = js ''back-neck'' \<and>
   matches_slug_re (js ''back-neck'') \<and>
   list_all is_ascii (js ''Back & Neck'') \<and>
   (\<exists>c \<in> set (js ''Back & Neck''). is_alnum c) \<and>
   createSlug keep_unit (js ''?!'') [] = [] \<and>
   \<not> (\<exists>c \<in> set (js ''?!''). is_alnum c \<or> c = 8490 \<or> c = 304)"
proof -
  note A = createSlug_slugify [of keep_unit "js ''Back & Neck''"]
  note B = createSlug_slugify [of keep_unit "js ''?!''"]
  have e: "createSlug keep_unit (js ''Back & Neck'') [] = js ''back-neck''" by code_simp
  have e': "js ''back-neck'' \<noteq> []" by code_simp
  have f: "createSlug keep_unit (js ''?!'') [] = []" by code_simp
  have g: "\<forall>c \<in> set (js ''Back & Neck''). is_ascii c" by code_simp
  have k: "\<forall>s i. \<not> is_ascii (s ! i) \<and> s ! i \<noteq> 8490 \<and> s ! i \<noteq> 304 \<longrightarrow>
       \<not> (\<exists>c \<in> set (keep_unit s i). is_slug_char c)"
    by (auto simp: keep_unit_def is_ascii_def is_slug_char_def is_lower_def is_digit_def)
  have 1: "createSlug keep_unit (js ''Back & Neck'') [] = slugify_spec keep_unit (js ''Back & Neck'')"
    using A by (rule conjunct1)
  have "matches_slug_re (createSlug keep_unit (js ''Back & Neck'') []) \<or>
      createSlug keep_unit (js ''Back & Neck'') [] = []"
    using A [THEN conjunct2] by (rule conjunct1)
  then have 2: "matches_slug_re (js ''back-neck'')"
    unfolding e using e' by simp
  have "createSlug keep_unit (js ''Back & Neck'') [] = [] \<longleftrightarrow>
      \<not> (\<exists>c \<in> set (js ''Back & Neck''). is_alnum c)"
    using A [THEN conjunct2, THEN conjunct2, THEN conjunct2, THEN conjunct1] g by (rule mp)
  then have 3: "\<exists>c \<in> set (js ''Back & Neck''). is_alnum c"
    unfolding e using e' by simp
  have "createSlug keep_unit (js ''?!'') [] = [] \<longleftrightarrow>
      \<not> (\<exists>c \<in> set (js ''?!''). is_alnum c \<or> c = 8490 \<or> c = 304)"
    using B [THEN conjunct2, THEN conjunct2, THEN conjunct2, THEN conjunct2, THEN conjunct1] k
    by (rule mp)
  then have 4: "\<not> (\<exists>c \<in> set (js ''?!''). is_alnum c \<or> c = 8490 \<or> c = 304)"
    unfolding f by simp
  have g': "list_all is_ascii (js ''Back & Neck'')"
    using g by (simp only: list_all_iff)
  show ?thesis
    by (intro conjI) (rule 1, rule e, rule 2, rule g', rule 3, rule f, rule 4)
qed
section \<open>Properties of the sanitizer\<close>

text \<open>
  A value that is no string passes through \<open>sanitizeInput\<close> unchanged, whatever the filter.
  Applying \<open>sanitizeInput\<close> twice gives the same as applying it once exactly when the
  filter's output on a trimmed string is left alone by trimming and filtering it again.
\<close>

lemma sanitizeInput_non_string:
  assumes "\<And>s. v \<noteq> JString s"
  shows "sanitizeInput xss v = v"
proof (cases v)
  case (JString s)
  with assms [of s] show ?thesis by simp
qed (simp_all add: sanitizeInput_def)

lemma sanitizeInput_twice:
  "sanitizeInput xss (sanitizeInput xss (JString s)) = JString (xss (trim (xss (trim s))))"
  by (simp add: sanitizeInput_def)

lemma sanitizeInput_idempotent_iff:
  "(\<forall>v. sanitizeInput xss (sanitizeInput xss v) = sanitizeInput xss v) \<longleftrightarrow>
   (\<forall>s. xss (trim (xss (trim s))) = xss (trim s))"
proof
  assume idem: "\<forall>v. sanitizeInput xss (sanitizeInput xss v) = sanitizeInput xss v"
  show "\<forall>s. xss (trim (xss (trim s))) = xss (trim s)"
  proof
    fix s
    from idem have "sanitizeInput xss (sanitizeInput xss (JString s)) =
        sanitizeInput xss (JString s)" ..
    then show "xss (trim (xss (trim s))) = xss (trim s)"
      by (simp add: sanitizeInput_def)
  qed
next
  assume fixed: "\<forall>s. xss (trim (xss (trim s))) = xss (trim s)"
  show "\<forall>v. sanitizeInput xss (sanitizeInput xss v) = sanitizeInput xss v"
  proof
    fix v
    show "sanitizeInput xss (sanitizeInput xss v) = sanitizeInput xss v"
      using fixed by (cases v) (simp_all add: sanitizeInput_def)
  qed
qed

section \<open>Properties of the authentication middleware\<close>

text \<open>
  Claim C5. In required mode (\<open>verifyToken\<close>), a credential that \<open>jwt.verify\<close> reports as
  expired is answered with 401 "Token expired." (ExpiredCredential), a malformed or unsigned
  one with 401 "Invalid token." (InvalidCredential), and one whose subject is an account
  with the active flag off with 401 "Account is deactivated." (DeactivatedAccount); whenever
  a response is sent the request goes on unchanged, so no identity is attached to it.
\<close>

theorem verifyToken_failures:
  "(extract_token req = Some token \<and> token \<noteq> [] \<and> jwt_verify token = TokenExpiredError \<longrightarrow>
      verifyToken jwt_verify d req = (Some (reply 401 (Error ''Token expired.'')), req)) \<and>
   (extract_token req = Some token \<and> token \<noteq> [] \<and> jwt_verify token = JsonWebTokenError \<longrightarrow>
      verifyToken jwt_verify d req = (Some (reply 401 (Error ''Invalid token.'')), req)) \<and>
   (extract_token req = Some token \<and> token \<noteq> [] \<and> jwt_verify token = Decoded uid \<and>
    filter (\<lambda>u. Some (user_id u) = uid) (users d) = u # rest \<and> \<not> user_is_active u \<longrightarrow>
      verifyToken jwt_verify d req = (Some (reply 401 (Error ''Account is deactivated.'')), req)) \<and>
   (fst (verifyToken jwt_verify d req) \<noteq> None \<longrightarrow> snd (verifyToken jwt_verify d req) = req)"
proof (intro conjI impI)
  assume "extract_token req = Some token \<and> token \<noteq> [] \<and> jwt_verify token = TokenExpiredError"
  then show "verifyToken jwt_verify d req = (Some (reply 401 (Error ''Token expired.'')), req)"
    by (simp add: verifyToken_def)
next
  assume "extract_token req = Some token \<and> token \<noteq> [] \<and> jwt_verify token = JsonWebTokenError"
  then show "verifyToken jwt_verify d req = (Some (reply 401 (Error ''Invalid token.'')), req)"
    by (simp add: verifyToken_def)
next
  assume "extract_token req = Some token \<and> token \<noteq> [] \<and> jwt_verify token = Decoded uid \<and>
    filter (\<lambda>u. Some (user_id u) = uid) (users d) = u # rest \<and> \<not> user_is_active u"
  then show "verifyToken jwt_verify d req =
      (Some (reply 401 (Error ''Account is deactivated.'')), req)"
    by (simp add: verifyToken_def)
next
  assume sent: "fst (verifyToken jwt_verify d req) \<noteq> None"
  show "snd (verifyToken jwt_verify d req) = req"
  proof (cases "extract_token req")
    case None
    then show ?thesis by (simp add: verifyToken_def)
  next
    case (Some t)
    show ?thesis
    proof (cases "t = []")
      case True
      with Some show ?thesis by (simp add: verifyToken_def)
    next
      case False
      show ?thesis
      proof (cases "jwt_verify t")
        case (Decoded uid')
        show ?thesis
        proof (cases "filter (\<lambda>u. Some (user_id u) = uid') (users d)")
          case Nil
          with Some False Decoded show ?thesis by (simp add: verifyToken_def)
        next
          case (Cons u' rest')
          with Some False Decoded sent show ?thesis
            by (cases "user_is_active u'") (simp_all add: verifyToken_def)
        qed
      qed (use Some False in \<open>simp_all add: verifyToken_def\<close>)
    qed
  qed
qed

lemma extract_bearer: "extract_token (bearer t) = Some t"
  by (simp add: extract_token_def bearer_def starts_with_def js_def)

theorem verifyToken_failures_witness:
  "verifyToken demo_jwt_verify demo_db (bearer (js ''expired'')) =
     (Some (reply 401 (Error ''Token expired.'')), bearer (js ''expired'')) \<and>
   verifyToken demo_jwt_verify demo_db (bearer (js ''x.y.z'')) =
     (Some (reply 401 (Error ''Invalid token.'')), bearer (js ''x.y.z'')) \<and>
   verifyToken demo_jwt_verify demo_db (bearer (js ''former'')) =
     (Some (reply 401 (Error ''Account is deactivated.'')), bearer (js ''former'')) \<and>
   req_user (snd (verifyToken demo_jwt_verify demo_db (bearer (js ''former'')))) = None"
proof -
  have a: "verifyToken demo_jwt_verify demo_db (bearer (js ''expired'')) =
     (Some (reply 401 (Error ''Token expired.'')), bearer (js ''expired''))"
    using verifyToken_failures [of "bearer (js ''expired'')" "js ''expired''" demo_jwt_verify demo_db]
    by (simp add: extract_bearer demo_jwt_verify_def js_def)
  have b: "verifyToken demo_jwt_verify demo_db (bearer (js ''x.y.z'')) =
     (Some (reply 401 (Error ''Invalid token.'')), bearer (js ''x.y.z''))"
    using verifyToken_failures [of "bearer (js ''x.y.z'')" "js ''x.y.z''" demo_jwt_verify demo_db]
    by (simp add: extract_bearer demo_jwt_verify_def js_def)
  have c: "verifyToken demo_jwt_verify demo_db (bearer (js ''former'')) =
     (Some (reply 401 (Error ''Account is deactivated.'')), bearer (js ''former''))"
    using verifyToken_failures [of "bearer (js ''former'')" "js ''former''" demo_jwt_verify demo_db
        "Some 2" "demo_users ! 1" "[]"]
    by (simp add: extract_bearer demo_jwt_verify_def demo_db_def demo_users_def js_def)
  from a b c show ?thesis by (simp add: bearer_def)
qed

section \<open>Properties of the login handler\<close>







section \<open>Properties of the field validator\<close>

lemma trim_abc: "trim (js ''abc'') = js ''abc''"
  by (simp add: trim_def is_space_def js_def)

lemma not_phone_abc: "\<not> phone_re (js ''abc'')"
  by (simp add: phone_re_def is_digit_def is_space_def js_def)

lemma phone_chain_abc:
  "(''phone'', ''Invalid phone number format'') \<in> set (fst (run_chain lib ''phone'' False
     [Trim, NotEmpty ''Phone is required'', Matches phone_re ''Invalid phone number format'',
      IsLength 0 (Some 50) ''Phone must be less than 50 characters''] (js ''abc'')))"
  by (simp add: run_chain_def trim_abc not_phone_abc split_def Let_def)

lemma phone_abc_violation:
  "ci_phone b = js ''abc'' \<Longrightarrow>
   (''phone'', ''Invalid phone number format'') \<in> set (fst (chiropractorValidation lib b))"
  using phone_chain_abc [of lib]
  by (simp add: chiropractorValidation_def split_def Let_def)

text \<open>
  Trimming takes the white space of Unicode off: a required name of no-break spaces is
  rejected as empty. An optional website of spaces is let through, because trimming leaves
  the empty string and the checks after it are skipped.
\<close>

lemma name_of_no_break_spaces_rejected:
  "ci_name b = [160, 160, 160] \<Longrightarrow>
   (''name'', ''Name is required'') \<in> set (fst (chiropractorValidation lib b))"
  by (simp add: chiropractorValidation_def run_chain_def split_def Let_def trim_def
      is_space_def)

lemma website_of_spaces_accepted:
  "run_chain lib ''website'' True
     [Trim, IsURL ''Invalid website URL'',
      IsLength 0 (Some 500) ''Website URL must be less than 500 characters''] (js ''   '') =
   ([], [])"
  by (simp add: run_chain_def split_def Let_def trim_def is_space_def js_def)

text \<open>
  A sanitizer that is the last step of its chain has no part in the chain's errors.
\<close>

lemma run_rules_xss_errors:
  "CustomSanitizer \<notin> set (butlast rs) \<Longrightarrow>
   fst (run_rules (lib\<lparr>v_xss := x\<rparr>) opt rs v) = fst (run_rules lib opt rs v)"
proof (induction rs arbitrary: v)
  case Nil
  show ?case by simp
next
  case (Cons r rs)
  show ?case
  proof (cases "rs = []")
    case True
    then show ?thesis by (cases r) (simp_all add: split_def Let_def split: option.splits)
  next
    case False
    with Cons.prems have r: "r \<noteq> CustomSanitizer" and rest: "CustomSanitizer \<notin> set (butlast rs)"
      by auto
    from r have same: "apply_rule (lib\<lparr>v_xss := x\<rparr>) r v = apply_rule lib r v"
      by (cases r) (simp_all split: option.splits)
    show ?thesis
      using Cons.IH [OF rest] by (simp add: split_def same Let_def)
  qed
qed

lemma run_chain_xss_errors:
  "CustomSanitizer \<notin> set (butlast rs) \<Longrightarrow>
   fst (run_chain (lib\<lparr>v_xss := x\<rparr>) f opt rs v) = fst (run_chain lib f opt rs v)"
  by (simp add: run_chain_def split_def Let_def run_rules_xss_errors)

lemma chiropractorValidation_xss_errors:
  "fst (chiropractorValidation (lib\<lparr>v_xss := x\<rparr>) b) = fst (chiropractorValidation lib b)"
  unfolding chiropractorValidation_def split_def Let_def fst_conv
  by (simp only: run_chain_xss_errors butlast.simps list.set rule.distinct if_False if_True
      insert_iff empty_iff simp_thms list.distinct)

text \<open>
  The chain of \<open>name\<close> ends with the sanitizer, and every step of the chain runs whatever
  the checks before it found: the name in the body that the chains leave behind is the
  filter's output.
\<close>

lemma name_chain_value:
  "snd (run_chain lib ''name'' False
     [Trim, NotEmpty ''Name is required'',
      IsLength 2 (Some 255) ''Name must be between 2 and 255 characters'',
      CustomSanitizer] v) = v_xss lib (trim (trim v))"
  by (simp add: run_chain_def split_def Let_def sanitizeInput_def)

lemma name_sanitized:
  "ci_name (snd (chiropractorValidation lib b)) = v_xss lib (trim (trim (ci_name b)))"
  using name_chain_value [of lib "ci_name b"]
  by (simp add: chiropractorValidation_def split_def Let_def)

text \<open>
  Claim C3. A write request whose payload fails field validation is answered by
  \<open>handleValidationErrors\<close> with the 400 "Validation failed" response listing the violating
  fields; the handler behind it does not run, so the database, its audit log included, is
  as before. This holds for any chain behind the middleware, and for the Listing routes
  with the errors of \<open>idValidation\<close> and \<open>chiropractorValidation\<close>. A Listing payload with
  phone "abc" has a violation for the field \<open>phone\<close>. The request is not rejected before
  sanitization: the sanitizers are steps of the chains, which have all run by the time
  \<open>handleValidationErrors\<close> looks at the errors, so the name in the request body is by then
  the output of the filter; the errors themselves do not depend on the filter.
\<close>

theorem validation_failure_halts:
  "(errors \<noteq> [] \<longrightarrow>
      handleValidationErrors errors handler d = (reply 400 (Validation_failed errors), d)) \<and>
   (verifyToken jwt_verify d req = (None, req') \<and> isAdmin req' = Inr actor \<and>
    fst (chiropractorValidation lib b) \<noteq> [] \<longrightarrow>
      route_post_chiropractor jwt_verify lib e req b d =
        (reply 400 (Validation_failed (fst (chiropractorValidation lib b))), d) \<and>
      route_put_chiropractor jwt_verify lib e req i b d =
        (reply 400 (Validation_failed (idValidation i @ fst (chiropractorValidation lib b))), d)) \<and>
   (verifyToken jwt_verify d req = (None, req') \<and> isAdmin req' = Inr actor \<and>
    idValidation i \<noteq> [] \<longrightarrow>
      route_delete_chiropractor jwt_verify e req i d =
        (reply 400 (Validation_failed (idValidation i)), d)) \<and>
   (ci_phone b = js ''abc'' \<longrightarrow>
      (''phone'', ''Invalid phone number format'') \<in> set (fst (chiropractorValidation lib b))) \<and>
   ci_name (snd (chiropractorValidation lib b)) = v_xss lib (trim (trim (ci_name b))) \<and>
   fst (chiropractorValidation (lib\<lparr>v_xss := x\<rparr>) b) = fst (chiropractorValidation lib b)"
proof -
  have a: "errors \<noteq> [] \<longrightarrow>
      handleValidationErrors errors handler d = (reply 400 (Validation_failed errors), d)"
    by (simp add: handleValidationErrors_def)
  have b: "verifyToken jwt_verify d req = (None, req') \<and> isAdmin req' = Inr actor \<and>
    fst (chiropractorValidation lib b) \<noteq> [] \<longrightarrow>
      route_post_chiropractor jwt_verify lib e req b d =
        (reply 400 (Validation_failed (fst (chiropractorValidation lib b))), d) \<and>
      route_put_chiropractor jwt_verify lib e req i b d =
        (reply 400 (Validation_failed (idValidation i @ fst (chiropractorValidation lib b))), d)"
    by (simp add: route_post_chiropractor_def route_put_chiropractor_def
        handleValidationErrors_def split_def)
  have c: "verifyToken jwt_verify d req = (None, req') \<and> isAdmin req' = Inr actor \<and>
    idValidation i \<noteq> [] \<longrightarrow>
      route_delete_chiropractor jwt_verify e req i d =
        (reply 400 (Validation_failed (idValidation i)), d)"
    by (simp add: route_delete_chiropractor_def handleValidationErrors_def)
  have p: "ci_phone b = js ''abc'' \<longrightarrow>
      (''phone'', ''Invalid phone number format'') \<in> set (fst (chiropractorValidation lib b))"
    using phone_abc_violation [of b lib] by blast
  show ?thesis
    by (intro conjI) (rule a, rule b, rule c, rule p, rule name_sanitized,
        rule chiropractorValidation_xss_errors)
qed

lemma verify_admin:
  "verifyToken demo_jwt_verify site_db (bearer (js ''admin'')) =
     (None, (bearer (js ''admin''))\<lparr>req_user := Some demo_admin\<rparr>)"
  by (simp add: verifyToken_def extract_token_def bearer_def starts_with_def
      demo_jwt_verify_def site_db_def demo_users_def demo_admin_def js_def)

lemma demo_is_admin:
  "isAdmin ((bearer (js ''admin''))\<lparr>req_user := Some demo_admin\<rparr>) = Inr demo_admin"
  by (simp add: isAdmin_def demo_admin_def identity_of_def demo_users_def)

lemma demo_errors:
  "fst (chiropractorValidation demo_lib demo_input) =
     [(''phone'', ''Invalid phone number format'')]"
  by code_simp

lemma markup_errors:
  "fst (chiropractorValidation escaping_lib markup_input) =
     [(''phone'', ''Invalid phone number format'')]"
  by code_simp

lemma markup_name:
  "ci_name (snd (chiropractorValidation escaping_lib markup_input)) = js ''&lt;b>Lisa&lt;/b>''"
  by code_simp

text \<open>
  The claim as the specification words it, with the pipeline halting before sanitization,
  fails: a Listing request with markup in the name and the phone "abc" is rejected with the
  violation of \<open>phone\<close> and the database is as before, and the name that the chains have
  left in the request body by then is the filter's output, not the name that was sent.
\<close>

theorem sanitizer_runs_before_rejection_counterexample:
  "route_post_chiropractor demo_jwt_verify escaping_lib demo_env (bearer (js ''admin''))
       markup_input site_db =
     (reply 400 (Validation_failed [(''phone'', ''Invalid phone number format'')]), site_db) \<and>
   ci_name markup_input = js ''<b>Lisa</b>'' \<and>
   ci_name (snd (chiropractorValidation escaping_lib markup_input)) = js ''&lt;b>Lisa&lt;/b>'' \<and>
   ci_name (snd (chiropractorValidation escaping_lib markup_input)) \<noteq> ci_name markup_input"
proof -
  have 1: "route_post_chiropractor demo_jwt_verify escaping_lib demo_env (bearer (js ''admin''))
       markup_input site_db =
     (reply 400 (Validation_failed [(''phone'', ''Invalid phone number format'')]), site_db)"
    by (simp add: route_post_chiropractor_def verify_admin demo_is_admin
        handleValidationErrors_def split_def markup_errors)
  have 2: "ci_name markup_input = js ''<b>Lisa</b>''"
    by (simp add: markup_input_def)
  have 3: "js ''&lt;b>Lisa&lt;/b>'' \<noteq> js ''<b>Lisa</b>''"
    by code_simp
  show ?thesis
    unfolding markup_name 2 by (intro conjI) (rule 1, rule refl, rule refl, rule 3)
qed

theorem validation_failure_halts_witness:
  "route_post_chiropractor demo_jwt_verify demo_lib demo_env (bearer (js ''admin'')) demo_input
       site_db =
     (reply 400 (Validation_failed [(''phone'', ''Invalid phone number format'')]), site_db) \<and>
   route_put_chiropractor demo_jwt_verify demo_lib demo_env (bearer (js ''admin'')) 1 demo_input
       site_db =
     (reply 400 (Validation_failed [(''phone'', ''Invalid phone number format'')]), site_db) \<and>
   handleValidationErrors [(''phone'', ''Invalid phone number format'')]
       (post_chiropractor demo_env demo_admin (js ''10.0.0.1'') demo_input) site_db =
     (reply 400 (Validation_failed [(''phone'', ''Invalid phone number format'')]), site_db) \<and>
   route_delete_chiropractor demo_jwt_verify demo_env (bearer (js ''admin'')) 0 site_db =
     (reply 400 (Validation_failed [(''id'', ''Invalid ID'')]), site_db) \<and>
   ci_phone demo_input = js ''abc'' \<and>
   (''phone'', ''Invalid phone number format'') \<in> set (fst (chiropractorValidation demo_lib demo_input)) \<and>
   audit_log (snd (route_post_chiropractor demo_jwt_verify demo_lib demo_env (bearer (js ''admin''))
       demo_input site_db)) = []"
proof -
  note A = validation_failure_halts [where errors = "[(''phone'', ''Invalid phone number format'')]"
        and handler = "post_chiropractor demo_env demo_admin (js ''10.0.0.1'') demo_input"
        and d = site_db and jwt_verify = demo_jwt_verify and req = "bearer (js ''admin'')"
        and req' = "(bearer (js ''admin''))\<lparr>req_user := Some demo_admin\<rparr>"
        and actor = demo_admin and lib = demo_lib and b = demo_input and e = demo_env
        and x = "\<lambda>s. s"]
  have idv1: "idValidation 1 = []" by (simp add: idValidation_def)
  have idv0: "idValidation 0 = [(''id'', ''Invalid ID'')]" by (simp add: idValidation_def)
  have phone: "ci_phone demo_input = js ''abc''" by (simp add: demo_input_def)
  have empty: "audit_log site_db = []" by (simp add: site_db_def)
  have ne: "fst (chiropractorValidation demo_lib demo_input) \<noteq> []"
    by (simp add: demo_errors)
  have pre: "verifyToken demo_jwt_verify site_db (bearer (js ''admin'')) =
      (None, (bearer (js ''admin''))\<lparr>req_user := Some demo_admin\<rparr>) \<and>
    isAdmin ((bearer (js ''admin''))\<lparr>req_user := Some demo_admin\<rparr>) = Inr demo_admin"
    by (simp add: verify_admin demo_is_admin)
  have 3: "handleValidationErrors [(''phone'', ''Invalid phone number format'')]
       (post_chiropractor demo_env demo_admin (js ''10.0.0.1'') demo_input) site_db =
     (reply 400 (Validation_failed [(''phone'', ''Invalid phone number format'')]), site_db)"
    using A [where i = 1, THEN conjunct1] by simp
  have routes: "route_post_chiropractor demo_jwt_verify demo_lib demo_env (bearer (js ''admin''))
        demo_input site_db =
        (reply 400 (Validation_failed (fst (chiropractorValidation demo_lib demo_input))), site_db) \<and>
      route_put_chiropractor demo_jwt_verify demo_lib demo_env (bearer (js ''admin'')) 1 demo_input
        site_db =
        (reply 400 (Validation_failed
           (idValidation 1 @ fst (chiropractorValidation demo_lib demo_input))), site_db)"
    using A [where i = 1, THEN conjunct2, THEN conjunct1] pre ne by blast
  have 1: "route_post_chiropractor demo_jwt_verify demo_lib demo_env (bearer (js ''admin''))
        demo_input site_db =
     (reply 400 (Validation_failed [(''phone'', ''Invalid phone number format'')]), site_db)"
    using routes [THEN conjunct1] by (simp only: demo_errors)
  have 2: "route_put_chiropractor demo_jwt_verify demo_lib demo_env (bearer (js ''admin'')) 1
        demo_input site_db =
     (reply 400 (Validation_failed [(''phone'', ''Invalid phone number format'')]), site_db)"
    using routes [THEN conjunct2] by (simp only: demo_errors idv1 append_Nil)
  have 4: "route_delete_chiropractor demo_jwt_verify demo_env (bearer (js ''admin'')) 0 site_db =
     (reply 400 (Validation_failed [(''id'', ''Invalid ID'')]), site_db)"
    using A [where i = 0, THEN conjunct2, THEN conjunct2, THEN conjunct1] pre
    by (simp add: idv0)
  have 5: "(''phone'', ''Invalid phone number format'') \<in>
      set (fst (chiropractorValidation demo_lib demo_input))"
    using A [where i = 1, THEN conjunct2, THEN conjunct2, THEN conjunct2, THEN conjunct1] phone
    by (rule mp)
  have 6: "audit_log (snd (route_post_chiropractor demo_jwt_verify demo_lib demo_env
      (bearer (js ''admin'')) demo_input site_db)) = []"
    unfolding 1 by (simp add: empty)
  show ?thesis
    by (intro conjI) (rule 1, rule 2, rule 3, rule 4, rule phone, rule 5, rule 6)
qed
section \<open>Properties of the public reads of a post\<close>

text \<open>What a successful read does to the table: the selected post's rows get one more view
  and the current time as \<open>updated_at\<close>.\<close>

lemma read_post_success:
  assumes "read_post e selected d = (r, d')" and "status r = 200"
  shows "\<exists>p rest. selected = p # rest \<and> r = reply 200 (Post_read p) \<and>
           d' = d\<lparr>blog_posts :=
                  map (\<lambda>q. if p_id q = p_id p
                            then q\<lparr>p_views := p_views q + 1, p_updated_at := now e\<rparr> else q)
                    (blog_posts d)\<rparr>"
  using assms
  by (auto simp: read_post_def increment_views_def update_blog_posts_def updated_post_def
      split: list.splits option.splits if_splits)

lemma read_post_runs:
  assumes "selected = p # rest" and "store_ok e"
    and "\<forall>q \<in> set (blog_posts d). p_id q = p_id p \<longrightarrow> p_views q < 2147483647"
  shows "fst (read_post e selected d) = reply 200 (Post_read p)"
  using assms by (auto simp: read_post_def increment_views_def)

text \<open>A read that does not answer 200 leaves the database as it was.\<close>

lemma read_post_failure:
  assumes "read_post e selected d = (r, d')" and "status r \<noteq> 200"
  shows "d' = d"
  using assms
  by (auto simp: read_post_def split: list.splits option.splits)

lemma filter_Cons_member: "filter P xs = y # ys \<Longrightarrow> y \<in> set xs \<and> P y"
proof -
  assume "filter P xs = y # ys"
  then have "y \<in> set (filter P xs)" by simp
  then show ?thesis by simp
qed

text \<open>
  Claim C9, as the code has it. A successful public read of a published post, by slug or by
  identifier, adds one to the view counter of that post and, through the table's update
  trigger, sets its \<open>updated_at\<close> to the current time; the post's other fields, the other
  posts and the other tables stay as they are. The read succeeds when the post is there, the
  storage layer works and the counter is below its largest value. When no published post
  has the slug, a slug without the character U+0000, or the identifier, from 1 to
  2147483647, the response is 404 "Blog post not found". A slug with the character U+0000
  and an identifier above 2147483647 make the query raise, and the response is 500 "Failed
  to fetch blog post"; an identifier below 1 is answered with 400 by \<open>idValidation\<close>. Every
  read that does not answer 200 leaves the database unchanged.
\<close>

theorem public_read_counts_view:
  "(get_blog_by_slug e sl d = (r, d') \<and> status r = 200 \<longrightarrow>
      (\<exists>p \<in> set (blog_posts d). p_slug p = sl \<and> p_is_published p \<and>
         r = reply 200 (Post_read p) \<and>
         d' = d\<lparr>blog_posts :=
                map (\<lambda>q. if p_id q = p_id p
                          then q\<lparr>p_views := p_views q + 1, p_updated_at := now e\<rparr> else q)
                  (blog_posts d)\<rparr>)) \<and>
   (get_blog_by_id e i d = (r, d') \<and> status r = 200 \<longrightarrow>
      (\<exists>p \<in> set (blog_posts d). p_id p = i \<and> p_is_published p \<and>
         r = reply 200 (Post_read p) \<and>
         d' = d\<lparr>blog_posts :=
                map (\<lambda>q. if p_id q = p_id p
                          then q\<lparr>p_views := p_views q + 1, p_updated_at := now e\<rparr> else q)
                  (blog_posts d)\<rparr>)) \<and>
   (0 \<notin> set sl \<and>
    filter (\<lambda>p. p_slug p = sl \<and> p_is_published p) (blog_posts d) = p # rest \<and> store_ok e \<and>
    (\<forall>q \<in> set (blog_posts d). p_id q = p_id p \<longrightarrow> p_views q < 2147483647) \<longrightarrow>
      fst (get_blog_by_slug e sl d) = reply 200 (Post_read p)) \<and>
   (1 \<le> i \<and> i \<le> 2147483647 \<and>
    filter (\<lambda>p. p_id p = i \<and> p_is_published p) (blog_posts d) = p # rest \<and> store_ok e \<and>
    (\<forall>q \<in> set (blog_posts d). p_id q = p_id p \<longrightarrow> p_views q < 2147483647) \<longrightarrow>
      fst (get_blog_by_id e i d) = reply 200 (Post_read p)) \<and>
   (0 \<notin> set sl \<and> filter (\<lambda>p. p_slug p = sl \<and> p_is_published p) (blog_posts d) = [] \<longrightarrow>
      get_blog_by_slug e sl d = (reply 404 (Error ''Blog post not found''), d)) \<and>
   (1 \<le> i \<and> i \<le> 2147483647 \<and>
    filter (\<lambda>p. p_id p = i \<and> p_is_published p) (blog_posts d) = [] \<longrightarrow>
      get_blog_by_id e i d = (reply 404 (Error ''Blog post not found''), d)) \<and>
   (0 \<in> set sl \<longrightarrow>
      get_blog_by_slug e sl d = (reply 500 (Error ''Failed to fetch blog post''), d)) \<and>
   (2147483647 < i \<longrightarrow>
      get_blog_by_id e i d = (reply 500 (Error ''Failed to fetch blog post''), d)) \<and>
   (get_blog_by_slug e sl d = (r, d') \<and> status r \<noteq> 200 \<longrightarrow> d' = d) \<and>
   (get_blog_by_id e i d = (r, d') \<and> status r \<noteq> 200 \<longrightarrow> d' = d) \<and>
   (i < 1 \<longrightarrow>
      get_blog_by_id e i d = (reply 400 (Validation_failed [(''id'', ''Invalid ID'')]), d))"
proof -
  have g: "i < 1 \<longrightarrow>
      get_blog_by_id e i d = (reply 400 (Validation_failed [(''id'', ''Invalid ID'')]), d)"
    by (simp add: get_blog_by_id_def idValidation_def)
  have a: "\<exists>p \<in> set (blog_posts d). p_slug p = sl \<and> p_is_published p \<and>
         r = reply 200 (Post_read p) \<and>
         d' = d\<lparr>blog_posts :=
                map (\<lambda>q. if p_id q = p_id p
                          then q\<lparr>p_views := p_views q + 1, p_updated_at := now e\<rparr> else q)
                  (blog_posts d)\<rparr>"
    if "get_blog_by_slug e sl d = (r, d')" "status r = 200"
  proof -
    from that have
      "read_post e (filter (\<lambda>p. p_slug p = sl \<and> p_is_published p) (blog_posts d)) d = (r, d')"
      by (auto simp: get_blog_by_slug_def split: if_splits)
    with that(2) obtain p rest where
      sel: "filter (\<lambda>p. p_slug p = sl \<and> p_is_published p) (blog_posts d) = p # rest"
      and res: "r = reply 200 (Post_read p)"
        "d' = d\<lparr>blog_posts :=
                map (\<lambda>q. if p_id q = p_id p
                          then q\<lparr>p_views := p_views q + 1, p_updated_at := now e\<rparr> else q)
                  (blog_posts d)\<rparr>"
      by (blast dest: read_post_success)
    from filter_Cons_member [OF sel] res show ?thesis by blast
  qed
  have b: "\<exists>p \<in> set (blog_posts d). p_id p = i \<and> p_is_published p \<and>
         r = reply 200 (Post_read p) \<and>
         d' = d\<lparr>blog_posts :=
                map (\<lambda>q. if p_id q = p_id p
                          then q\<lparr>p_views := p_views q + 1, p_updated_at := now e\<rparr> else q)
                  (blog_posts d)\<rparr>"
    if "get_blog_by_id e i d = (r, d')" "status r = 200"
  proof -
    from that have
      "read_post e (filter (\<lambda>p. p_id p = i \<and> p_is_published p) (blog_posts d)) d = (r, d')"
      by (auto simp: get_blog_by_id_def split: if_splits)
    with that(2) obtain p rest where
      sel: "filter (\<lambda>p. p_id p = i \<and> p_is_published p) (blog_posts d) = p # rest"
      and res: "r = reply 200 (Post_read p)"
        "d' = d\<lparr>blog_posts :=
                map (\<lambda>q. if p_id q = p_id p
                          then q\<lparr>p_views := p_views q + 1, p_updated_at := now e\<rparr> else q)
                  (blog_posts d)\<rparr>"
      by (blast dest: read_post_success)
    from filter_Cons_member [OF sel] res show ?thesis by blast
  qed
  have c: "fst (get_blog_by_slug e sl d) = reply 200 (Post_read p)"
    if "0 \<notin> set sl"
      "filter (\<lambda>p. p_slug p = sl \<and> p_is_published p) (blog_posts d) = p # rest" "store_ok e"
      "\<forall>q \<in> set (blog_posts d). p_id q = p_id p \<longrightarrow> p_views q < 2147483647"
    using that(1) read_post_runs [OF that(2) that(3) that(4)]
    by (simp add: get_blog_by_slug_def text_param_ok_def)
  have c': "fst (get_blog_by_id e i d) = reply 200 (Post_read p)"
    if "1 \<le> i" "i \<le> 2147483647"
      "filter (\<lambda>p. p_id p = i \<and> p_is_published p) (blog_posts d) = p # rest"
      "store_ok e"
      "\<forall>q \<in> set (blog_posts d). p_id q = p_id p \<longrightarrow> p_views q < 2147483647"
    using that(1,2) read_post_runs [OF that(3) that(4) that(5)]
    by (simp add: get_blog_by_id_def idValidation_def int4_param_ok_def)
  have d1: "0 \<notin> set sl \<and>
      filter (\<lambda>p. p_slug p = sl \<and> p_is_published p) (blog_posts d) = [] \<longrightarrow>
      get_blog_by_slug e sl d = (reply 404 (Error ''Blog post not found''), d)"
    by (simp add: get_blog_by_slug_def read_post_def text_param_ok_def)
  have d2: "1 \<le> i \<and> i \<le> 2147483647 \<and>
      filter (\<lambda>p. p_id p = i \<and> p_is_published p) (blog_posts d) = [] \<longrightarrow>
      get_blog_by_id e i d = (reply 404 (Error ''Blog post not found''), d)"
    by (simp add: get_blog_by_id_def read_post_def idValidation_def int4_param_ok_def)
  have e1: "0 \<in> set sl \<longrightarrow>
      get_blog_by_slug e sl d = (reply 500 (Error ''Failed to fetch blog post''), d)"
    by (simp add: get_blog_by_slug_def text_param_ok_def)
  have e2: "2147483647 < i \<longrightarrow>
      get_blog_by_id e i d = (reply 500 (Error ''Failed to fetch blog post''), d)"
    by (simp add: get_blog_by_id_def idValidation_def int4_param_ok_def)
  have f1: "d' = d" if "get_blog_by_slug e sl d = (r, d')" "status r \<noteq> 200"
  proof (cases "text_param_ok sl")
    case True
    with that(1) have
      "read_post e (filter (\<lambda>p. p_slug p = sl \<and> p_is_published p) (blog_posts d)) d = (r, d')"
      by (simp add: get_blog_by_slug_def)
    then show ?thesis using that(2) by (rule read_post_failure)
  next
    case False
    with that(1) show ?thesis by (simp add: get_blog_by_slug_def)
  qed
  have f2: "d' = d" if "get_blog_by_id e i d = (r, d')" "status r \<noteq> 200"
  proof (cases "idValidation i = [] \<and> int4_param_ok i")
    case True
    with that(1) have
      "read_post e (filter (\<lambda>p. p_id p = i \<and> p_is_published p) (blog_posts d)) d = (r, d')"
      by (simp add: get_blog_by_id_def)
    then show ?thesis using that(2) by (rule read_post_failure)
  next
    case False
    with that(1) show ?thesis by (auto simp: get_blog_by_id_def split: if_splits)
  qed
  show ?thesis
  proof (intro conjI impI)
    assume "get_blog_by_slug e sl d = (r, d') \<and> status r = 200"
    then show "\<exists>p \<in> set (blog_posts d). p_slug p = sl \<and> p_is_published p \<and>
         r = reply 200 (Post_read p) \<and>
         d' = d\<lparr>blog_posts :=
                map (\<lambda>q. if p_id q = p_id p
                          then q\<lparr>p_views := p_views q + 1, p_updated_at := now e\<rparr> else q)
                  (blog_posts d)\<rparr>"
      using a by blast
  next
    assume "get_blog_by_id e i d = (r, d') \<and> status r = 200"
    then show "\<exists>p \<in> set (blog_posts d). p_id p = i \<and> p_is_published p \<and>
         r = reply 200 (Post_read p) \<and>
         d' = d\<lparr>blog_posts :=
                map (\<lambda>q. if p_id q = p_id p
                          then q\<lparr>p_views := p_views q + 1, p_updated_at := now e\<rparr> else q)
                  (blog_posts d)\<rparr>"
      using b by blast
  next
    assume "0 \<notin> set sl \<and>
      filter (\<lambda>p. p_slug p = sl \<and> p_is_published p) (blog_posts d) = p # rest \<and> store_ok e \<and>
      (\<forall>q \<in> set (blog_posts d). p_id q = p_id p \<longrightarrow> p_views q < 2147483647)"
    then show "fst (get_blog_by_slug e sl d) = reply 200 (Post_read p)"
      using c by blast
  next
    assume "1 \<le> i \<and> i \<le> 2147483647 \<and>
      filter (\<lambda>p. p_id p = i \<and> p_is_published p) (blog_posts d) = p # rest \<and> store_ok e \<and>
      (\<forall>q \<in> set (blog_posts d). p_id q = p_id p \<longrightarrow> p_views q < 2147483647)"
    then show "fst (get_blog_by_id e i d) = reply 200 (Post_read p)"
      using c' by blast
  next
    assume "0 \<notin> set sl \<and>
      filter (\<lambda>p. p_slug p = sl \<and> p_is_published p) (blog_posts d) = []"
    with d1 show "get_blog_by_slug e sl d = (reply 404 (Error ''Blog post not found''), d)"
      by (rule mp)
  next
    assume "1 \<le> i \<and> i \<le> 2147483647 \<and>
      filter (\<lambda>p. p_id p = i \<and> p_is_published p) (blog_posts d) = []"
    with d2 show "get_blog_by_id e i d = (reply 404 (Error ''Blog post not found''), d)"
      by (rule mp)
  next
    assume "0 \<in> set sl"
    with e1 show "get_blog_by_slug e sl d = (reply 500 (Error ''Failed to fetch blog post''), d)"
      by (rule mp)
  next
    assume "2147483647 < i"
    with e2 show "get_blog_by_id e i d = (reply 500 (Error ''Failed to fetch blog post''), d)"
      by (rule mp)
  next
    assume "get_blog_by_slug e sl d = (r, d') \<and> status r \<noteq> 200"
    then show "d' = d" using f1 by blast
  next
    assume "get_blog_by_id e i d = (r, d') \<and> status r \<noteq> 200"
    then show "d' = d" using f2 by blast
  next
    assume "i < 1"
    with g show "get_blog_by_id e i d =
        (reply 400 (Validation_failed [(''id'', ''Invalid ID'')]), d)"
      by (rule mp)
  qed
qed

text \<open>
  The claim as the specification words it fails twice. The read does not leave every other
  field unchanged: the stored row of a post read at time 1000 has \<open>updated_at = 1000\<close>,
  where it was 20 before. And a missing post is not always answered with 404: no post has
  the identifier 2147483648, and the read by that identifier is answered with 500.
\<close>

theorem public_read_other_fields_counterexample:
  "get_blog_by_slug demo_env (js ''understanding-spinal-alignment'') site_db =
     (reply 200 (Post_read demo_post),
      site_db\<lparr>blog_posts := [demo_post\<lparr>p_views := 8, p_updated_at := 1000\<rparr>]\<rparr>) \<and>
   p_updated_at demo_post = 20 \<and>
   demo_post\<lparr>p_views := 8, p_updated_at := 1000\<rparr> \<noteq> demo_post\<lparr>p_views := p_views demo_post + 1\<rparr> \<and>
   select_blog_post 2147483648 site_db = [] \<and>
   get_blog_by_id demo_env 2147483648 site_db =
     (reply 500 (Error ''Failed to fetch blog post''), site_db)"
proof -
  have ok: "text_param_ok (js ''understanding-spinal-alignment'')" by code_simp
  have 1: "get_blog_by_slug demo_env (js ''understanding-spinal-alignment'') site_db =
     (reply 200 (Post_read demo_post),
      site_db\<lparr>blog_posts := [demo_post\<lparr>p_views := 8, p_updated_at := 1000\<rparr>]\<rparr>)"
    by (simp add: get_blog_by_slug_def ok read_post_def increment_views_def
        update_blog_posts_def updated_post_def site_db_def demo_post_def demo_env_def)
  have 2: "p_updated_at demo_post = 20" by (simp add: demo_post_def)
  have 3: "demo_post\<lparr>p_views := 8, p_updated_at := 1000\<rparr> \<noteq>
      demo_post\<lparr>p_views := p_views demo_post + 1\<rparr>"
    by (simp add: demo_post_def)
  have 4: "select_blog_post 2147483648 site_db = []"
    by (simp add: select_blog_post_def site_db_def demo_post_def)
  have 5: "get_blog_by_id demo_env 2147483648 site_db =
     (reply 500 (Error ''Failed to fetch blog post''), site_db)"
    by (simp add: get_blog_by_id_def idValidation_def int4_param_ok_def)
  show ?thesis
    by (intro conjI) (rule 1, rule 2, rule 3, rule 4, rule 5)
qed

theorem public_read_counts_view_witness:
  "fst (get_blog_by_id demo_env 1 site_db) = reply 200 (Post_read demo_post) \<and>
   blog_posts (snd (get_blog_by_id demo_env 1 site_db)) =
     [demo_post\<lparr>p_views := 8, p_updated_at := 1000\<rparr>] \<and>
   fst (get_blog_by_slug demo_env (js ''understanding-spinal-alignment'') site_db) =
     reply 200 (Post_read demo_post) \<and>
   get_blog_by_slug demo_env (js ''no-such-post'') site_db =
     (reply 404 (Error ''Blog post not found''), site_db) \<and>
   get_blog_by_id demo_env 2 site_db = (reply 404 (Error ''Blog post not found''), site_db) \<and>
   get_blog_by_slug demo_env (js ''no-such-post'' @ [0]) site_db =
     (reply 500 (Error ''Failed to fetch blog post''), site_db) \<and>
   get_blog_by_id demo_env 2147483648 site_db =
     (reply 500 (Error ''Failed to fetch blog post''), site_db) \<and>
   get_blog_by_id demo_env 0 site_db =
     (reply 400 (Validation_failed [(''id'', ''Invalid ID'')]), site_db) \<and>
   snd (get_blog_by_id demo_env 0 site_db) = site_db"
proof -
  have rows: "blog_posts site_db = [demo_post]" by (simp add: site_db_def)
  have post: "p_id demo_post = 1" "p_is_published demo_post" "p_views demo_post = 7"
    by (simp_all add: demo_post_def)
  have slug: "p_slug demo_post = js ''understanding-spinal-alignment''"
    by (simp add: demo_post_def)
  have env: "store_ok demo_env" "now demo_env = 1000" by (simp_all add: demo_env_def)
  have sel: "filter (\<lambda>p. p_id p = 1 \<and> p_is_published p) (blog_posts site_db) = [demo_post]"
    by (simp add: rows post)
  have sel': "filter (\<lambda>p. p_slug p = js ''understanding-spinal-alignment'' \<and> p_is_published p)
      (blog_posts site_db) = [demo_post]"
    by (simp add: rows post slug)
  have bound: "\<forall>q \<in> set (blog_posts site_db). p_id q = p_id demo_post \<longrightarrow> p_views q < 2147483647"
    by (simp add: rows post)
  have t1: "0 \<notin> set (js ''understanding-spinal-alignment'')" by code_simp
  have t2: "0 \<notin> set (js ''no-such-post'')" by code_simp
  have ne: "js ''understanding-spinal-alignment'' \<noteq> js ''no-such-post''" by code_simp
  have n1: "filter (\<lambda>p. p_slug p = js ''no-such-post'' \<and> p_is_published p) (blog_posts site_db) = []"
    by (simp add: rows slug ne)
  have n2: "filter (\<lambda>p. p_id p = 2 \<and> p_is_published p) (blog_posts site_db) = []"
    by (simp add: rows post)
  note inst = public_read_counts_view [where e = demo_env and d = site_db and i = 1
      and sl = "js ''understanding-spinal-alignment''"
      and p = demo_post and rest = "[]"
      and r = "fst (get_blog_by_id demo_env 1 site_db)"
      and d' = "snd (get_blog_by_id demo_env 1 site_db)"]
  have ok: "fst (get_blog_by_id demo_env 1 site_db) = reply 200 (Post_read demo_post)"
    by (rule inst [THEN conjunct2, THEN conjunct2, THEN conjunct2, THEN conjunct1, THEN mp])
      (simp add: sel bound env del: One_nat_def)
  have ok': "fst (get_blog_by_slug demo_env (js ''understanding-spinal-alignment'') site_db) =
      reply 200 (Post_read demo_post)"
    by (rule inst [THEN conjunct2, THEN conjunct2, THEN conjunct1, THEN mp])
      (simp add: sel' bound env t1 del: One_nat_def)
  have "\<exists>p \<in> set (blog_posts site_db). p_id p = 1 \<and> p_is_published p \<and>
         fst (get_blog_by_id demo_env 1 site_db) = reply 200 (Post_read p) \<and>
         snd (get_blog_by_id demo_env 1 site_db) = site_db\<lparr>blog_posts :=
                map (\<lambda>q. if p_id q = p_id p
                          then q\<lparr>p_views := p_views q + 1, p_updated_at := now demo_env\<rparr> else q)
                  (blog_posts site_db)\<rparr>"
    by (rule inst [THEN conjunct2, THEN conjunct1, THEN mp]) (simp add: ok prod_eq_iff del: One_nat_def)
  then have "snd (get_blog_by_id demo_env 1 site_db) = site_db\<lparr>blog_posts :=
                map (\<lambda>q. if p_id q = p_id demo_post
                          then q\<lparr>p_views := p_views q + 1, p_updated_at := now demo_env\<rparr> else q)
                  (blog_posts site_db)\<rparr>"
    unfolding rows by (simp del: One_nat_def)
  then have upd: "blog_posts (snd (get_blog_by_id demo_env 1 site_db)) =
     [demo_post\<lparr>p_views := 8, p_updated_at := 1000\<rparr>]"
    by (simp add: rows post env del: One_nat_def)
  note inst' = public_read_counts_view [where e = demo_env and sl = "js ''no-such-post''"
        and d = site_db and i = 2]
  have m1: "get_blog_by_slug demo_env (js ''no-such-post'') site_db =
     (reply 404 (Error ''Blog post not found''), site_db)"
    by (rule inst' [THEN conjunct2, THEN conjunct2, THEN conjunct2, THEN conjunct2,
          THEN conjunct1, THEN mp]) (simp add: n1 t2)
  have m2: "get_blog_by_id demo_env 2 site_db =
     (reply 404 (Error ''Blog post not found''), site_db)"
    by (rule inst' [THEN conjunct2, THEN conjunct2, THEN conjunct2, THEN conjunct2,
          THEN conjunct2, THEN conjunct1, THEN mp]) (simp add: n2)
  note inst'' = public_read_counts_view [where e = demo_env and sl = "js ''no-such-post'' @ [0]"
        and d = site_db and i = 2147483648]
  have r1: "get_blog_by_slug demo_env (js ''no-such-post'' @ [0]) site_db =
     (reply 500 (Error ''Failed to fetch blog post''), site_db)"
    by (rule inst'' [THEN conjunct2, THEN conjunct2, THEN conjunct2, THEN conjunct2,
          THEN conjunct2, THEN conjunct2, THEN conjunct1, THEN mp]) simp
  have r2: "get_blog_by_id demo_env 2147483648 site_db =
     (reply 500 (Error ''Failed to fetch blog post''), site_db)"
    by (rule inst'' [THEN conjunct2, THEN conjunct2, THEN conjunct2, THEN conjunct2,
          THEN conjunct2, THEN conjunct2, THEN conjunct2, THEN conjunct1, THEN mp]) simp
  have bad: "status (fst (get_blog_by_id demo_env 0 site_db)) \<noteq> 200"
    by (simp add: get_blog_by_id_def idValidation_def)
  have fr: "snd (get_blog_by_id demo_env 0 site_db) = site_db"
    by (rule public_read_counts_view [where e = demo_env and d = site_db and i = 0
          and r = "fst (get_blog_by_id demo_env 0 site_db)"
          and d' = "snd (get_blog_by_id demo_env 0 site_db)",
          THEN conjunct2, THEN conjunct2, THEN conjunct2, THEN conjunct2,
          THEN conjunct2, THEN conjunct2, THEN conjunct2, THEN conjunct2, THEN conjunct2,
          THEN conjunct1, THEN mp]) (simp add: bad)
  have v: "get_blog_by_id demo_env 0 site_db =
     (reply 400 (Validation_failed [(''id'', ''Invalid ID'')]), site_db)"
    by (rule public_read_counts_view [where e = demo_env and d = site_db and i = 0,
          THEN conjunct2, THEN conjunct2, THEN conjunct2, THEN conjunct2,
          THEN conjunct2, THEN conjunct2, THEN conjunct2, THEN conjunct2, THEN conjunct2,
          THEN conjunct2, THEN mp]) simp
  show ?thesis
    by (intro conjI)
      (rule ok, rule upd, rule ok', rule m1, rule m2, rule r1, rule r2, rule v, rule fr)
qed
section \<open>Soft delete and restore of a listing\<close>

lemma select_after_update:
  assumes "\<And>c. c_id (f c) = c_id c"
  shows "filter (\<lambda>c. c_id c = i) (update_chiropractors e i f rows) =
         map (\<lambda>c. (f c)\<lparr>c_updated_at := now e\<rparr>) (filter (\<lambda>c. c_id c = i) rows)"
  unfolding update_chiropractors_def
  by (induction rows) (simp_all add: assms)

lemma delete_chiropractor_rows:
  assumes "delete_chiropractor e actor ip i d = (r, d1)" and "succeeded r"
  shows "chiropractors d1 =
           update_chiropractors e i (\<lambda>c. c\<lparr>c_is_active := False\<rparr>) (chiropractors d)"
  using assms
  by (auto simp: delete_chiropractor_def insert_audit_def succeeded_def Let_def
      split: list.splits if_splits)

lemma restore_chiropractor_rows:
  assumes "restore_chiropractor e actor ip i d = (r, d1)" and "succeeded r"
  shows "chiropractors d1 =
           update_chiropractors e i (\<lambda>c. c\<lparr>c_is_active := True\<rparr>) (chiropractors d)"
  using assms
  by (auto simp: restore_chiropractor_def insert_audit_def succeeded_def Let_def
      split: list.splits if_splits)

lemma soft_deleted_inactive:
  "\<forall>x \<in> set (update_chiropractors e i (\<lambda>c. c\<lparr>c_is_active := False\<rparr>) rows).
     c_id x = i \<longrightarrow> \<not> c_is_active x"
proof (intro ballI impI)
  fix x
  assume "x \<in> set (update_chiropractors e i (\<lambda>c. c\<lparr>c_is_active := False\<rparr>) rows)"
    and i: "c_id x = i"
  then obtain c where
    x: "x = (if c_id c = i then c\<lparr>c_is_active := False, c_updated_at := now e\<rparr> else c)"
    unfolding update_chiropractors_def set_map image_iff by blast
  show "\<not> c_is_active x"
  proof (cases "c_id c = i")
    case True
    with x show ?thesis by simp
  next
    case False
    with x i show ?thesis by simp
  qed
qed

text \<open>Rows that are not active do not count in any public read.\<close>

lemma filter_without:
  assumes "\<forall>c \<in> set rows. c_id c = i \<longrightarrow> \<not> c_is_active c" and "\<And>c. P c \<Longrightarrow> c_is_active c"
  shows "filter P (filter (\<lambda>c. c_id c \<noteq> i) rows) = filter P rows"
  using assms(1)
proof (induction rows)
  case Nil
  show ?case by simp
next
  case (Cons r rows)
  then show ?case using assms(2) [of r] by auto
qed

lemma public_view_without:
  assumes "\<forall>c \<in> set (chiropractors d). c_id c = i \<longrightarrow> \<not> c_is_active c"
  shows "public_view ilike state search j (without_listing i d) =
         public_view ilike state search j d"
proof -
  note w = filter_without [OF assms]
  have rows: "chiropractors (without_listing i d) = filter (\<lambda>c. c_id c \<noteq> i) (chiropractors d)"
    by (simp add: without_listing_def)
  have a: "get_chiropractors ilike state search (without_listing i d) =
      get_chiropractors ilike state search d"
    unfolding get_chiropractors_def rows by (rule w) simp
  have b: "get_chiropractors_by_state state (without_listing i d) =
      get_chiropractors_by_state state d"
    unfolding get_chiropractors_by_state_def rows by (rule w) simp
  have act: "filter c_is_active (chiropractors (without_listing i d)) =
      filter c_is_active (chiropractors d)"
    unfolding rows by (rule w) simp
  have c: "get_states (without_listing i d) = get_states d"
    unfolding get_states_def act ..
  have e: "get_chiropractor j (without_listing i d) = get_chiropractor j d"
    unfolding get_chiropractor_def rows by (rule w) simp
  have rel: "filter (\<lambda>r. c_state r = s \<and> c_id r \<noteq> j \<and> c_is_active r)
        (chiropractors (without_listing i d)) =
      filter (\<lambda>r. c_state r = s \<and> c_id r \<noteq> j \<and> c_is_active r) (chiropractors d)" for s
    unfolding rows by (rule w) simp
  have f: "get_related j (without_listing i d) = get_related j d"
    unfolding get_related_def e [unfolded get_chiropractor_def] rel ..
  have g: "sitemap_states (without_listing i d) = sitemap_states d"
    unfolding sitemap_states_def act ..
  have h: "sitemap_chiropractors (without_listing i d) = sitemap_chiropractors d"
    unfolding sitemap_chiropractors_def act ..
  show ?thesis
    unfolding public_view_def a b c e f g h ..
qed

text \<open>
  Claim C7, as the code has it. The standard delete of a listing updates the row: the table
  keeps its length, the row stays retrievable by the identifier-only admin query with the
  active flag off, and every public read returns what it would return if the row were not
  there. A later restore makes the public lookup return the row again, with the values it had
  before the delete except for the active flag, now on, and \<open>updated_at\<close>, which the
  table's update trigger has set to the time of the restore.
\<close>

theorem soft_delete_then_restore:
  assumes "select_chiropractor i d = [c]"
    and "delete_chiropractor e1 actor1 ip1 i d = (r1, d1)" and "succeeded r1"
    and "restore_chiropractor e2 actor2 ip2 i d1 = (r2, d2)" and "succeeded r2"
  shows "length (chiropractors d1) = length (chiropractors d) \<and>
         select_chiropractor i d1 = [c\<lparr>c_is_active := False, c_updated_at := now e1\<rparr>] \<and>
         public_view ilike state search j d1 =
           public_view ilike state search j (without_listing i d1) \<and>
         get_chiropractor i d1 = [] \<and>
         select_chiropractor i d2 = [c\<lparr>c_is_active := True, c_updated_at := now e2\<rparr>] \<and>
         get_chiropractor i d2 = [c\<lparr>c_is_active := True, c_updated_at := now e2\<rparr>]"
proof -
  note rows1 = delete_chiropractor_rows [OF assms(2,3)]
  note rows2 = restore_chiropractor_rows [OF assms(4,5)]
  have c: "filter (\<lambda>x. c_id x = i) (chiropractors d) = [c]"
    using assms(1) unfolding select_chiropractor_def .
  have len: "length (chiropractors d1) = length (chiropractors d)"
    unfolding rows1 update_chiropractors_def by (rule length_map)
  have "select_chiropractor i d1 =
      map (\<lambda>x. (x\<lparr>c_is_active := False\<rparr>)\<lparr>c_updated_at := now e1\<rparr>)
        (filter (\<lambda>x. c_id x = i) (chiropractors d))"
    unfolding select_chiropractor_def rows1 by (rule select_after_update) simp
  then have sel1: "select_chiropractor i d1 = [c\<lparr>c_is_active := False, c_updated_at := now e1\<rparr>]"
    unfolding c by simp
  have inactive: "\<forall>x \<in> set (chiropractors d1). c_id x = i \<longrightarrow> \<not> c_is_active x"
    unfolding rows1 by (rule soft_deleted_inactive)
  have view: "public_view ilike state search j d1 =
      public_view ilike state search j (without_listing i d1)"
    by (rule public_view_without [OF inactive, symmetric])
  have "get_chiropractor i d1 = filter c_is_active (select_chiropractor i d1)"
    unfolding get_chiropractor_def select_chiropractor_def by (simp only: filter_filter conj_commute)
  then have hidden: "get_chiropractor i d1 = []"
    unfolding sel1 by simp
  have "select_chiropractor i d2 =
      map (\<lambda>x. (x\<lparr>c_is_active := True\<rparr>)\<lparr>c_updated_at := now e2\<rparr>)
        (filter (\<lambda>x. c_id x = i) (chiropractors d1))"
    unfolding select_chiropractor_def rows2 by (rule select_after_update) simp
  then have sel2: "select_chiropractor i d2 = [c\<lparr>c_is_active := True, c_updated_at := now e2\<rparr>]"
    unfolding sel1 [unfolded select_chiropractor_def] by simp
  have "get_chiropractor i d2 = filter c_is_active (select_chiropractor i d2)"
    unfolding get_chiropractor_def select_chiropractor_def by (simp only: filter_filter conj_commute)
  then have shown: "get_chiropractor i d2 = [c\<lparr>c_is_active := True, c_updated_at := now e2\<rparr>]"
    unfolding sel2 by simp
  from len sel1 view hidden sel2 shown show ?thesis by (intro conjI)
qed

text \<open>
  The restored row is not the old row up to the active flag: deleted at time 1000 and
  restored at time 2000, the sample listing has \<open>updated_at = 2000\<close>, where it was 10.
\<close>

theorem restore_other_fields_counterexample:
  "select_chiropractor 1
     (snd (restore_chiropractor later_env demo_admin (js ''10.0.0.1'') 1
        (snd (delete_chiropractor demo_env demo_admin (js ''10.0.0.1'') 1 site_db)))) =
     [demo_chiro\<lparr>c_updated_at := 2000\<rparr>] \<and>
   c_updated_at demo_chiro = 10 \<and>
   demo_chiro\<lparr>c_updated_at := 2000\<rparr> \<noteq> demo_chiro\<lparr>c_is_active := True\<rparr>"
  by code_simp

theorem soft_delete_then_restore_witness:
  "select_chiropractor 1 (snd (delete_chiropractor demo_env demo_admin (js ''10.0.0.1'') 1 site_db)) =
     [demo_chiro\<lparr>c_is_active := False, c_updated_at := 1000\<rparr>] \<and>
   get_chiropractor 1 (snd (delete_chiropractor demo_env demo_admin (js ''10.0.0.1'') 1 site_db)) = [] \<and>
   get_chiropractor 1
     (snd (restore_chiropractor later_env demo_admin (js ''10.0.0.1'') 1
        (snd (delete_chiropractor demo_env demo_admin (js ''10.0.0.1'') 1 site_db)))) =
     [demo_chiro\<lparr>c_is_active := True, c_updated_at := 2000\<rparr>]"
proof -
  define r1 where "r1 = fst (delete_chiropractor demo_env demo_admin (js ''10.0.0.1'') 1 site_db)"
  define d1 where "d1 = snd (delete_chiropractor demo_env demo_admin (js ''10.0.0.1'') 1 site_db)"
  define r2 where "r2 = fst (restore_chiropractor later_env demo_admin (js ''10.0.0.1'') 1 d1)"
  define d2 where "d2 = snd (restore_chiropractor later_env demo_admin (js ''10.0.0.1'') 1 d1)"
  have sel: "select_chiropractor 1 site_db = [demo_chiro]"
    by code_simp
  have del: "delete_chiropractor demo_env demo_admin (js ''10.0.0.1'') 1 site_db = (r1, d1)"
    unfolding r1_def d1_def by (rule prod.collapse [symmetric])
  have res: "restore_chiropractor later_env demo_admin (js ''10.0.0.1'') 1 d1 = (r2, d2)"
    unfolding r2_def d2_def by (rule prod.collapse [symmetric])
  have ok1: "succeeded r1"
    unfolding r1_def by code_simp
  have ok2: "succeeded r2"
    unfolding r2_def d1_def by code_simp
  have env: "now demo_env = 1000" "now later_env = 2000"
    by (simp_all add: demo_env_def later_env_def)
  note inst = soft_delete_then_restore [OF sel del ok1 res ok2, where state = "[]"
      and search = "[]" and j = 1 and ilike = "\<lambda>a b. True", unfolded env d1_def d2_def]
  from inst [THEN conjunct2, THEN conjunct1]
    inst [THEN conjunct2, THEN conjunct2, THEN conjunct2, THEN conjunct1]
    inst [THEN conjunct2, THEN conjunct2, THEN conjunct2, THEN conjunct2, THEN conjunct2]
  show ?thesis unfolding d1_def by (intro conjI)
qed

section \<open>Slug collisions on post creation\<close>

lemma to_base36_not_Nil: "to_base36 n \<noteq> []"
  by (subst to_base36.simps) simp

lemma createSlug_suffix:
  "createSlug u t (to_base36 n) = createSlug u t [] @ js ''-'' @ to_base36 n"
  by (simp add: createSlug_def to_base36_not_Nil)

lemma post_blog_status: "status (fst (post_blog e actor ip b d)) \<in> {201, 500}"
  by (simp add: post_blog_def Let_def insert_audit_def)

lemma post_blog_created:
  assumes "store_ok e" and "audit_ok e"
    and "\<not> slug_taken (new_post_slug e (pi_title b) (blog_posts d)) (blog_posts d)"
  shows "status (fst (post_blog e actor ip b d)) = 201 \<and>
         (case payload (fst (post_blog e actor ip b d)) of
            Post_body m row \<Rightarrow> p_slug row = new_post_slug e (pi_title b) (blog_posts d)
          | _ \<Rightarrow> False) \<and>
         map p_slug (blog_posts (snd (post_blog e actor ip b d))) =
           map p_slug (blog_posts d) @ [new_post_slug e (pi_title b) (blog_posts d)]"
  using assms by (simp add: post_blog_def Let_def insert_audit_def)

text \<open>
  Claim C6. When the slug derived from the title of a new post belongs to an existing post,
  \<open>POST /\<close> takes the derived slug with a hyphen and the time in base 36 appended, which
  differs from the existing one; the response is never a 409 Conflict, and when no post has
  the suffixed slug either and the storage layer works, the post is created with it (201).
\<close>

theorem slug_collision_resolved:
  assumes "slug_taken (createSlug (case_map e) (pi_title b) []) (blog_posts d)"
  shows "new_post_slug e (pi_title b) (blog_posts d) =
           createSlug (case_map e) (pi_title b) [] @ js ''-'' @ to_base36 (now e) \<and>
         new_post_slug e (pi_title b) (blog_posts d) \<noteq>
           createSlug (case_map e) (pi_title b) [] \<and>
         status (fst (post_blog e actor ip b d)) \<noteq> 409 \<and>
         (store_ok e \<and> audit_ok e \<and>
          \<not> slug_taken (new_post_slug e (pi_title b) (blog_posts d)) (blog_posts d) \<longrightarrow>
            status (fst (post_blog e actor ip b d)) = 201 \<and>
            (case payload (fst (post_blog e actor ip b d)) of
               Post_body m row \<Rightarrow> p_slug row = new_post_slug e (pi_title b) (blog_posts d)
             | _ \<Rightarrow> False) \<and>
            map p_slug (blog_posts (snd (post_blog e actor ip b d))) =
              map p_slug (blog_posts d) @ [new_post_slug e (pi_title b) (blog_posts d)])"
proof -
  have a: "new_post_slug e (pi_title b) (blog_posts d) =
           createSlug (case_map e) (pi_title b) [] @ js ''-'' @ to_base36 (now e)"
    using assms by (simp add: new_post_slug_def createSlug_suffix)
  then have b: "new_post_slug e (pi_title b) (blog_posts d) \<noteq>
      createSlug (case_map e) (pi_title b) []"
    by (simp add: js_hyphen)
  have c: "status (fst (post_blog e actor ip b d)) \<noteq> 409"
    using post_blog_status [of e actor ip b d] by auto
  from a b c post_blog_created [of e b d actor ip] show ?thesis by blast
qed

theorem slug_collision_resolved_witness:
  "new_post_slug demo_env (pi_title demo_post_input) (blog_posts site_db) =
     js ''understanding-spinal-alignment-rs'' \<and>
   status (fst (post_blog demo_env demo_admin (js ''10.0.0.1'') demo_post_input site_db)) = 201 \<and>
   map p_slug (blog_posts (snd (post_blog demo_env demo_admin (js ''10.0.0.1'') demo_post_input site_db))) =
     [js ''understanding-spinal-alignment'', js ''understanding-spinal-alignment-rs'']"
proof -
  have taken: "slug_taken (createSlug (case_map demo_env) (pi_title demo_post_input) [])
      (blog_posts site_db)"
    by code_simp
  have fresh: "store_ok demo_env \<and> audit_ok demo_env \<and>
      \<not> slug_taken (new_post_slug demo_env (pi_title demo_post_input) (blog_posts site_db))
          (blog_posts site_db)"
    by code_simp
  have slug: "createSlug (case_map demo_env) (pi_title demo_post_input) [] @ js ''-'' @
      to_base36 (now demo_env) = js ''understanding-spinal-alignment-rs''"
    by code_simp
  have old: "map p_slug (blog_posts site_db) = [js ''understanding-spinal-alignment'']"
    by code_simp
  note inst = slug_collision_resolved [OF taken, of demo_admin "js ''10.0.0.1''"]
  note new = inst [THEN conjunct1, unfolded slug]
  note made = inst [THEN conjunct2, THEN conjunct2, THEN conjunct2, THEN mp, OF fresh,
      unfolded new old]
  from new made [THEN conjunct1] made [THEN conjunct2, THEN conjunct2]
  show ?thesis by simp
qed

section \<open>Audit failure and the entity write\<close>

text \<open>The entity statements read the clock from the environment and nothing else.\<close>

lemma update_chiropractors_env:
  "update_chiropractors (e\<lparr>audit_ok := x\<rparr>) i f rows = update_chiropractors e i f rows"
  by (simp add: update_chiropractors_def)

lemma updated_post_env: "updated_post (e\<lparr>audit_ok := x\<rparr>) f p = updated_post e f p"
  by (simp add: updated_post_def)

lemma update_blog_posts_env:
  "update_blog_posts (e\<lparr>audit_ok := x\<rparr>) i f rows = update_blog_posts e i f rows"
  by (simp add: update_blog_posts_def updated_post_env)

lemma new_post_slug_env: "new_post_slug (e\<lparr>audit_ok := x\<rparr>) t rows = new_post_slug e t rows"
  by (simp add: new_post_slug_def)

lemma updated_post_slug_env:
  "updated_post_slug (e\<lparr>audit_ok := x\<rparr>) i cur t rows = updated_post_slug e i cur t rows"
  by (simp add: updated_post_slug_def)

lemma updated_published_at_env:
  "updated_published_at (e\<lparr>audit_ok := x\<rparr>) cur p = updated_published_at e cur p"
  by (simp add: updated_published_at_def)

lemma update_setting_value_env:
  "update_setting_value (e\<lparr>audit_ok := x\<rparr>) k v rows = update_setting_value e k v rows"
  by (simp add: update_setting_value_def)

lemma bulk_update_env: "bulk_update (e\<lparr>audit_ok := x\<rparr>) kvs rows = bulk_update e kvs rows"
proof (induction kvs arbitrary: rows)
  case Nil
  show ?case by simp
next
  case (Cons kv kvs)
  then show ?case by (cases kv) (simp add: update_setting_value_env)
qed

lemma updated_user_env: "updated_user (e\<lparr>audit_ok := x\<rparr>) u = updated_user e u"
  by (simp add: updated_user_def)

lemmas entity_env =
  update_chiropractors_env updated_post_env update_blog_posts_env new_post_slug_env
  updated_post_slug_env updated_published_at_env update_setting_value_env bulk_update_env
  updated_user_env

lemma post_chiropractor_audit_fails:
  "\<not> audit_ok e \<Longrightarrow>
   kept_without_audit (post_chiropractor e actor ip b d) (post_chiropractor (e\<lparr>audit_ok := True\<rparr>) actor ip b d) d"
  by (simp add: kept_without_audit_def post_chiropractor_def insert_audit_def succeeded_def
      same_entities_def Let_def entity_env split: list.split option.split)

lemma put_chiropractor_audit_fails:
  "\<not> audit_ok e \<Longrightarrow>
   kept_without_audit (put_chiropractor e actor ip i b d) (put_chiropractor (e\<lparr>audit_ok := True\<rparr>) actor ip i b d) d"
  by (simp add: kept_without_audit_def put_chiropractor_def insert_audit_def succeeded_def
      same_entities_def Let_def entity_env split: list.split option.split)

lemma delete_chiropractor_audit_fails:
  "\<not> audit_ok e \<Longrightarrow>
   kept_without_audit (delete_chiropractor e actor ip i d) (delete_chiropractor (e\<lparr>audit_ok := True\<rparr>) actor ip i d) d"
  by (simp add: kept_without_audit_def delete_chiropractor_def insert_audit_def succeeded_def
      same_entities_def Let_def entity_env split: list.split option.split)

lemma restore_chiropractor_audit_fails:
  "\<not> audit_ok e \<Longrightarrow>
   kept_without_audit (restore_chiropractor e actor ip i d) (restore_chiropractor (e\<lparr>audit_ok := True\<rparr>) actor ip i d) d"
  by (simp add: kept_without_audit_def restore_chiropractor_def insert_audit_def succeeded_def
      same_entities_def Let_def entity_env split: list.split option.split)

lemma permanent_delete_chiropractor_audit_fails:
  "\<not> audit_ok e \<Longrightarrow>
   kept_without_audit (permanent_delete_chiropractor e actor ip i d) (permanent_delete_chiropractor (e\<lparr>audit_ok := True\<rparr>) actor ip i d) d"
  by (simp add: kept_without_audit_def permanent_delete_chiropractor_def insert_audit_def succeeded_def
      same_entities_def Let_def entity_env split: list.split option.split)

lemma post_blog_audit_fails:
  "\<not> audit_ok e \<Longrightarrow>
   kept_without_audit (post_blog e actor ip b d) (post_blog (e\<lparr>audit_ok := True\<rparr>) actor ip b d) d"
  by (simp add: kept_without_audit_def post_blog_def insert_audit_def succeeded_def
      same_entities_def Let_def entity_env split: list.split option.split)

lemma put_blog_audit_fails:
  "\<not> audit_ok e \<Longrightarrow>
   kept_without_audit (put_blog e actor ip i b d) (put_blog (e\<lparr>audit_ok := True\<rparr>) actor ip i b d) d"
  by (simp add: kept_without_audit_def put_blog_def insert_audit_def succeeded_def
      same_entities_def Let_def entity_env split: list.split option.split)

lemma delete_blog_audit_fails:
  "\<not> audit_ok e \<Longrightarrow>
   kept_without_audit (delete_blog e actor ip i d) (delete_blog (e\<lparr>audit_ok := True\<rparr>) actor ip i d) d"
  by (simp add: kept_without_audit_def delete_blog_def insert_audit_def succeeded_def
      same_entities_def Let_def entity_env split: list.split option.split)

lemma toggle_publish_audit_fails:
  "\<not> audit_ok e \<Longrightarrow>
   kept_without_audit (toggle_publish e actor ip i d) (toggle_publish (e\<lparr>audit_ok := True\<rparr>) actor ip i d) d"
  by (simp add: kept_without_audit_def toggle_publish_def insert_audit_def succeeded_def
      same_entities_def Let_def entity_env split: list.split option.split)

lemma put_setting_audit_fails:
  "\<not> audit_ok e \<Longrightarrow>
   kept_without_audit (put_setting e actor ip k v d) (put_setting (e\<lparr>audit_ok := True\<rparr>) actor ip k v d) d"
  by (simp add: kept_without_audit_def put_setting_def insert_audit_def succeeded_def
      same_entities_def Let_def entity_env split: list.split option.split)

lemma bulk_settings_audit_fails:
  "\<not> audit_ok e \<Longrightarrow>
   kept_without_audit (bulk_settings e actor ip kvs d) (bulk_settings (e\<lparr>audit_ok := True\<rparr>) actor ip kvs d) d"
  by (simp add: kept_without_audit_def bulk_settings_def insert_audit_def succeeded_def
      same_entities_def Let_def entity_env split_def split: list.split option.split)

lemma post_setting_audit_fails:
  "\<not> audit_ok e \<Longrightarrow>
   kept_without_audit (post_setting e actor ip b d) (post_setting (e\<lparr>audit_ok := True\<rparr>) actor ip b d) d"
  by (simp add: kept_without_audit_def post_setting_def insert_audit_def succeeded_def
      same_entities_def Let_def entity_env split: list.split option.split)

lemma delete_setting_audit_fails:
  "\<not> audit_ok e \<Longrightarrow>
   kept_without_audit (delete_setting e actor ip k d) (delete_setting (e\<lparr>audit_ok := True\<rparr>) actor ip k d) d"
  by (simp add: kept_without_audit_def delete_setting_def insert_audit_def succeeded_def
      same_entities_def Let_def entity_env split: list.split option.split)

lemma post_user_audit_fails:
  "\<not> audit_ok e \<Longrightarrow>
   kept_without_audit (post_user h e actor ip b d) (post_user h (e\<lparr>audit_ok := True\<rparr>) actor ip b d) d"
  by (simp add: kept_without_audit_def post_user_def insert_audit_def succeeded_def
      same_entities_def Let_def entity_env split: list.split option.split)

lemma toggle_active_audit_fails:
  "\<not> audit_ok e \<Longrightarrow>
   kept_without_audit (toggle_active e actor ip i d) (toggle_active (e\<lparr>audit_ok := True\<rparr>) actor ip i d) d"
  by (simp add: kept_without_audit_def toggle_active_def insert_audit_def succeeded_def
      same_entities_def Let_def entity_env split: list.split option.split)


text \<open>
  Claim C2, as the code has it. No handler runs the entity write and the audit append in one
  transaction. When the audit statement raises, the request is not successful (it is
  answered 500 where it would have succeeded) and nothing is added to the audit log, but
  the entity tables are left as the same request leaves them with a working audit store:
  the entity write stays applied without its audit record.
\<close>

theorem audit_failure_keeps_entity_write:
  "\<not> audit_ok e \<Longrightarrow>
   kept_without_audit (admin_handler h e actor ip w d)
     (admin_handler h (e\<lparr>audit_ok := True\<rparr>) actor ip w d) d"
  by (cases w)
    (simp_all add: post_chiropractor_audit_fails put_chiropractor_audit_fails
      delete_chiropractor_audit_fails restore_chiropractor_audit_fails
      permanent_delete_chiropractor_audit_fails post_blog_audit_fails put_blog_audit_fails
      delete_blog_audit_fails toggle_publish_audit_fails put_setting_audit_fails
      bulk_settings_audit_fails post_setting_audit_fails delete_setting_audit_fails
      post_user_audit_fails toggle_active_audit_fails)

text \<open>
  The mutation is applied without its audit record: with the audit statement raising, the
  create request is answered 500, the new listing is in the table and the log is empty;
  likewise the bulk update has changed both settings.
\<close>

theorem audit_atomicity_counterexample:
  "fst (post_chiropractor failing_env demo_admin (js ''10.0.0.1'') valid_input site_db) =
     reply 500 (Error ''Failed to create chiropractor'') \<and>
   map c_name
     (chiropractors (snd (post_chiropractor failing_env demo_admin (js ''10.0.0.1'') valid_input
        site_db))) = [js ''Dr. Sarah Johnson'', js ''Dr. Lisa Anderson''] \<and>
   audit_log (snd (post_chiropractor failing_env demo_admin (js ''10.0.0.1'') valid_input site_db)) =
     [] \<and>
   fst (bulk_settings failing_env demo_admin (js ''10.0.0.1'') (Some demo_bulk) site_db) =
     reply 500 (Error ''Failed to update settings'') \<and>
   map s_value
     (site_settings (snd (bulk_settings failing_env demo_admin (js ''10.0.0.1'') (Some demo_bulk)
        site_db))) = [Some (js ''Spine Directory''), Some (js ''#000000'')] \<and>
   audit_log (snd (bulk_settings failing_env demo_admin (js ''10.0.0.1'') (Some demo_bulk) site_db)) =
     []"
  by code_simp

theorem audit_failure_keeps_entity_write_witness:
  "status (fst (admin_handler (\<lambda>s. s) failing_env demo_admin (js ''10.0.0.1'')
      (Create_listing valid_input) site_db)) = 500 \<and>
   chiropractors (snd (admin_handler (\<lambda>s. s) failing_env demo_admin (js ''10.0.0.1'')
      (Create_listing valid_input) site_db)) =
   chiropractors (snd (admin_handler (\<lambda>s. s) demo_env demo_admin (js ''10.0.0.1'')
      (Create_listing valid_input) site_db)) \<and>
   audit_log (snd (admin_handler (\<lambda>s. s) failing_env demo_admin (js ''10.0.0.1'')
      (Create_listing valid_input) site_db)) = audit_log site_db"
proof -
  have fails: "\<not> audit_ok failing_env" by (simp add: failing_env_def)
  have env: "failing_env\<lparr>audit_ok := True\<rparr> = demo_env"
    by (simp add: failing_env_def demo_env_def)
  have worked: "succeeded (fst (admin_handler (\<lambda>s. s) demo_env demo_admin (js ''10.0.0.1'')
      (Create_listing valid_input) site_db))"
    by code_simp
  note inst = audit_failure_keeps_entity_write [OF fails, of "\<lambda>s. s" demo_admin "js ''10.0.0.1''"
      "Create_listing valid_input" site_db, unfolded env kept_without_audit_def
      same_entities_def]
  from inst worked show ?thesis by blast
qed

section \<open>The audit entry of an admin write\<close>

lemma appended_one_append: "appended_one old (old @ [a]) P = P a"
  by (simp add: appended_one_def)

lemma fresh_chiropractor:
  "sequences_fresh d \<Longrightarrow> filter (\<lambda>c. c_id c = chiropractors_seq d) (chiropractors d) = []"
  by (auto simp: sequences_fresh_def filter_empty_conv)

lemma fresh_post:
  "sequences_fresh d \<Longrightarrow> filter (\<lambda>p. p_id p = blog_posts_seq d) (blog_posts d) = []"
  by (auto simp: sequences_fresh_def filter_empty_conv)

lemma fresh_setting:
  "sequences_fresh d \<Longrightarrow> filter (\<lambda>s. s_id s = site_settings_seq d) (site_settings d) = []"
  by (auto simp: sequences_fresh_def filter_empty_conv)

lemma select_after_update_post:
  assumes "\<And>p. p_id (f p) = p_id p"
  shows "filter (\<lambda>p. p_id p = i) (update_blog_posts e i f rows) =
         map (updated_post e f) (filter (\<lambda>p. p_id p = i) rows)"
  unfolding update_blog_posts_def
  by (induction rows) (simp_all add: assms updated_post_def)

lemma select_after_update_setting:
  "filter (\<lambda>s. s_key s = k) (update_setting_value e k v rows) =
   map (\<lambda>s. s\<lparr>s_value := v, s_updated_at := now e\<rparr>) (filter (\<lambda>s. s_key s = k) rows)"
  unfolding update_setting_value_def
  by (induction rows) simp_all

lemma none_left: "filter P (filter (\<lambda>x. \<not> P x) rows) = []"
  by (induction rows) simp_all


lemma post_chiropractor_logs:
  assumes "post_chiropractor e actor ip b d = (r, d')" and "succeeded r" and "sequences_fresh d"
  shows "appended_one (audit_log d) (audit_log d')
           (\<lambda>a. a_user_id a = Some (ident_id actor) \<and> logged (Create_listing b) d d' a)"
  using assms
  by (auto simp: post_chiropractor_def insert_audit_def succeeded_def Let_def appended_one_append
      full_record_def names_record_def entity_snapshot_def first_of_def
      select_chiropractor_def select_blog_post_def select_setting_def split_def
      select_after_update select_after_update_post select_after_update_setting none_left
      fresh_chiropractor fresh_post fresh_setting
      split: list.splits if_splits option.splits)

lemma put_chiropractor_logs:
  assumes "put_chiropractor e actor ip i b d = (r, d')" and "succeeded r"
  shows "appended_one (audit_log d) (audit_log d')
           (\<lambda>a. a_user_id a = Some (ident_id actor) \<and> logged (Update_listing i b) d d' a)"
  using assms
  by (auto simp: put_chiropractor_def insert_audit_def succeeded_def Let_def appended_one_append
      full_record_def names_record_def entity_snapshot_def first_of_def
      select_chiropractor_def select_blog_post_def select_setting_def split_def
      select_after_update select_after_update_post select_after_update_setting none_left
      fresh_chiropractor fresh_post fresh_setting
      split: list.splits if_splits option.splits)

lemma delete_chiropractor_logs:
  assumes "delete_chiropractor e actor ip i d = (r, d')" and "succeeded r"
  shows "appended_one (audit_log d) (audit_log d')
           (\<lambda>a. a_user_id a = Some (ident_id actor) \<and> logged (Delete_listing i) d d' a)"
  using assms
  by (auto simp: delete_chiropractor_def insert_audit_def succeeded_def Let_def appended_one_append
      full_record_def names_record_def entity_snapshot_def first_of_def
      select_chiropractor_def select_blog_post_def select_setting_def split_def
      select_after_update select_after_update_post select_after_update_setting none_left
      fresh_chiropractor fresh_post fresh_setting
      split: list.splits if_splits option.splits)

lemma restore_chiropractor_logs:
  assumes "restore_chiropractor e actor ip i d = (r, d')" and "succeeded r"
  shows "appended_one (audit_log d) (audit_log d')
           (\<lambda>a. a_user_id a = Some (ident_id actor) \<and> logged (Restore_listing i) d d' a)"
  using assms
  by (auto simp: restore_chiropractor_def insert_audit_def succeeded_def Let_def appended_one_append
      full_record_def names_record_def entity_snapshot_def first_of_def
      select_chiropractor_def select_blog_post_def select_setting_def split_def
      select_after_update select_after_update_post select_after_update_setting none_left
      fresh_chiropractor fresh_post fresh_setting
      split: list.splits if_splits option.splits)

lemma permanent_delete_chiropractor_logs:
  assumes "permanent_delete_chiropractor e actor ip i d = (r, d')" and "succeeded r"
  shows "appended_one (audit_log d) (audit_log d')
           (\<lambda>a. a_user_id a = Some (ident_id actor) \<and> logged (Permanent_delete_listing i) d d' a)"
  using assms
  by (auto simp: permanent_delete_chiropractor_def insert_audit_def succeeded_def Let_def appended_one_append
      full_record_def names_record_def entity_snapshot_def first_of_def
      select_chiropractor_def select_blog_post_def select_setting_def split_def
      select_after_update select_after_update_post select_after_update_setting none_left
      fresh_chiropractor fresh_post fresh_setting
      split: list.splits if_splits option.splits)

lemma post_blog_logs:
  assumes "post_blog e actor ip b d = (r, d')" and "succeeded r" and "sequences_fresh d"
  shows "appended_one (audit_log d) (audit_log d')
           (\<lambda>a. a_user_id a = Some (ident_id actor) \<and> logged (Create_post b) d d' a)"
  using assms
  by (auto simp: post_blog_def insert_audit_def succeeded_def Let_def appended_one_append
      full_record_def names_record_def entity_snapshot_def first_of_def
      select_chiropractor_def select_blog_post_def select_setting_def split_def
      select_after_update select_after_update_post select_after_update_setting none_left
      fresh_chiropractor fresh_post fresh_setting
      split: list.splits if_splits option.splits)

lemma put_blog_logs:
  assumes "put_blog e actor ip i b d = (r, d')" and "succeeded r"
  shows "appended_one (audit_log d) (audit_log d')
           (\<lambda>a. a_user_id a = Some (ident_id actor) \<and> logged (Update_post i b) d d' a)"
  using assms
  by (auto simp: put_blog_def insert_audit_def succeeded_def Let_def appended_one_append
      full_record_def names_record_def entity_snapshot_def first_of_def
      select_chiropractor_def select_blog_post_def select_setting_def split_def
      select_after_update select_after_update_post select_after_update_setting none_left
      fresh_chiropractor fresh_post fresh_setting
      split: list.splits if_splits option.splits)

lemma delete_blog_logs:
  assumes "delete_blog e actor ip i d = (r, d')" and "succeeded r"
  shows "appended_one (audit_log d) (audit_log d')
           (\<lambda>a. a_user_id a = Some (ident_id actor) \<and> logged (Delete_post i) d d' a)"
  using assms
  by (auto simp: delete_blog_def insert_audit_def succeeded_def Let_def appended_one_append
      full_record_def names_record_def entity_snapshot_def first_of_def
      select_chiropractor_def select_blog_post_def select_setting_def split_def
      select_after_update select_after_update_post select_after_update_setting none_left
      fresh_chiropractor fresh_post fresh_setting
      split: list.splits if_splits option.splits)

lemma toggle_publish_logs:
  assumes "toggle_publish e actor ip i d = (r, d')" and "succeeded r"
  shows "appended_one (audit_log d) (audit_log d')
           (\<lambda>a. a_user_id a = Some (ident_id actor) \<and> logged (Toggle_publish i) d d' a)"
  using assms
  by (auto simp: toggle_publish_def updated_post_def insert_audit_def succeeded_def Let_def appended_one_append
      full_record_def names_record_def entity_snapshot_def first_of_def
      select_chiropractor_def select_blog_post_def select_setting_def split_def
      select_after_update select_after_update_post select_after_update_setting none_left
      fresh_chiropractor fresh_post fresh_setting
      split: list.splits if_splits option.splits)

lemma put_setting_logs:
  assumes "put_setting e actor ip k v d = (r, d')" and "succeeded r"
  shows "appended_one (audit_log d) (audit_log d')
           (\<lambda>a. a_user_id a = Some (ident_id actor) \<and> logged (Update_setting k v) d d' a)"
  using assms
  by (auto simp: put_setting_def insert_audit_def succeeded_def Let_def appended_one_append
      full_record_def names_record_def entity_snapshot_def first_of_def
      select_chiropractor_def select_blog_post_def select_setting_def split_def
      select_after_update select_after_update_post select_after_update_setting none_left
      fresh_chiropractor fresh_post fresh_setting
      split: list.splits if_splits option.splits)

lemma bulk_settings_logs:
  assumes "bulk_settings e actor ip kvs d = (r, d')" and "succeeded r"
  shows "appended_one (audit_log d) (audit_log d')
           (\<lambda>a. a_user_id a = Some (ident_id actor) \<and> logged (Bulk_update_settings kvs) d d' a)"
  using assms
  by (auto simp: bulk_settings_def insert_audit_def succeeded_def Let_def appended_one_append
      full_record_def names_record_def entity_snapshot_def first_of_def
      select_chiropractor_def select_blog_post_def select_setting_def split_def
      select_after_update select_after_update_post select_after_update_setting none_left
      fresh_chiropractor fresh_post fresh_setting
      split: list.splits if_splits option.splits)

lemma post_setting_logs:
  assumes "post_setting e actor ip b d = (r, d')" and "succeeded r" and "sequences_fresh d"
  shows "appended_one (audit_log d) (audit_log d')
           (\<lambda>a. a_user_id a = Some (ident_id actor) \<and> logged (Create_setting b) d d' a)"
  using assms
  by (auto simp: post_setting_def insert_audit_def succeeded_def Let_def appended_one_append
      full_record_def names_record_def entity_snapshot_def first_of_def
      select_chiropractor_def select_blog_post_def select_setting_def split_def
      select_after_update select_after_update_post select_after_update_setting none_left
      fresh_chiropractor fresh_post fresh_setting
      split: list.splits if_splits option.splits)

lemma delete_setting_logs:
  assumes "delete_setting e actor ip k d = (r, d')" and "succeeded r"
  shows "appended_one (audit_log d) (audit_log d')
           (\<lambda>a. a_user_id a = Some (ident_id actor) \<and> logged (Delete_setting k) d d' a)"
  using assms
  by (auto simp: delete_setting_def insert_audit_def succeeded_def Let_def appended_one_append
      full_record_def names_record_def entity_snapshot_def first_of_def
      select_chiropractor_def select_blog_post_def select_setting_def split_def
      select_after_update select_after_update_post select_after_update_setting none_left
      fresh_chiropractor fresh_post fresh_setting
      split: list.splits if_splits option.splits)

lemma post_user_logs:
  assumes "post_user h e actor ip b d = (r, d')" and "succeeded r"
  shows "appended_one (audit_log d) (audit_log d')
           (\<lambda>a. a_user_id a = Some (ident_id actor) \<and> logged (Create_account b) d d' a)"
  using assms
  by (auto simp: post_user_def insert_audit_def succeeded_def Let_def appended_one_append
      full_record_def names_record_def entity_snapshot_def first_of_def
      select_chiropractor_def select_blog_post_def select_setting_def split_def
      select_after_update select_after_update_post select_after_update_setting none_left
      fresh_chiropractor fresh_post fresh_setting
      split: list.splits if_splits option.splits)

lemma toggle_active_logs:
  assumes "toggle_active e actor ip i d = (r, d')" and "succeeded r"
  shows "appended_one (audit_log d) (audit_log d')
           (\<lambda>a. a_user_id a = Some (ident_id actor) \<and> logged (Toggle_account i) d d' a)"
  using assms
  by (auto simp: toggle_active_def insert_audit_def succeeded_def Let_def appended_one_append
      full_record_def names_record_def entity_snapshot_def first_of_def
      select_chiropractor_def select_blog_post_def select_setting_def split_def
      select_after_update select_after_update_post select_after_update_setting none_left
      fresh_chiropractor fresh_post fresh_setting
      split: list.splits if_splits option.splits)


text \<open>
  Claim C1, as the code has it. Every successful request to an admin write endpoint appends
  exactly one audit entry in the same request, carrying the acting account. For creating,
  updating and permanently deleting a listing, creating, updating and deleting a post, and
  creating a setting, the entry's type and identifier are those of the mutated record, its
  old snapshot is the record's state before the request (absent for a create) and its new
  snapshot the state after (absent for a removal). The other endpoints write what \<open>logged\<close>
  says: the soft delete the old row only, restore and the account endpoints no snapshot,
  toggling publication and updating a setting the changed field, deleting a setting the old
  row, and the bulk update one entry of type \<open>settings\<close> with the submitted object and
  no identifier.
\<close>

theorem admin_write_audited:
  assumes "admin_handler h e actor ip w d = (r, d')" and "succeeded r" and "sequences_fresh d"
  shows "appended_one (audit_log d) (audit_log d')
           (\<lambda>a. a_user_id a = Some (ident_id actor) \<and> logged w d d' a)"
proof (cases w)
  case (Create_listing b)
  from assms(1) have "post_chiropractor e actor ip b d = (r, d')"
    unfolding Create_listing by simp
  from post_chiropractor_logs [OF this assms(2,3)] show ?thesis
    unfolding Create_listing .
next
  case (Update_listing i b)
  from assms(1) have "put_chiropractor e actor ip i b d = (r, d')"
    unfolding Update_listing by simp
  from put_chiropractor_logs [OF this assms(2)] show ?thesis
    unfolding Update_listing .
next
  case (Delete_listing i)
  from assms(1) have "delete_chiropractor e actor ip i d = (r, d')"
    unfolding Delete_listing by simp
  from delete_chiropractor_logs [OF this assms(2)] show ?thesis
    unfolding Delete_listing .
next
  case (Restore_listing i)
  from assms(1) have "restore_chiropractor e actor ip i d = (r, d')"
    unfolding Restore_listing by simp
  from restore_chiropractor_logs [OF this assms(2)] show ?thesis
    unfolding Restore_listing .
next
  case (Permanent_delete_listing i)
  from assms(1) have "permanent_delete_chiropractor e actor ip i d = (r, d')"
    unfolding Permanent_delete_listing by simp
  from permanent_delete_chiropractor_logs [OF this assms(2)] show ?thesis
    unfolding Permanent_delete_listing .
next
  case (Create_post b)
  from assms(1) have "post_blog e actor ip b d = (r, d')"
    unfolding Create_post by simp
  from post_blog_logs [OF this assms(2,3)] show ?thesis
    unfolding Create_post .
next
  case (Update_post i b)
  from assms(1) have "put_blog e actor ip i b d = (r, d')"
    unfolding Update_post by simp
  from put_blog_logs [OF this assms(2)] show ?thesis
    unfolding Update_post .
next
  case (Delete_post i)
  from assms(1) have "delete_blog e actor ip i d = (r, d')"
    unfolding Delete_post by simp
  from delete_blog_logs [OF this assms(2)] show ?thesis
    unfolding Delete_post .
next
  case (Toggle_publish i)
  from assms(1) have "toggle_publish e actor ip i d = (r, d')"
    unfolding Toggle_publish by simp
  from toggle_publish_logs [OF this assms(2)] show ?thesis
    unfolding Toggle_publish .
next
  case (Update_setting k v)
  from assms(1) have "put_setting e actor ip k v d = (r, d')"
    unfolding Update_setting by simp
  from put_setting_logs [OF this assms(2)] show ?thesis
    unfolding Update_setting .
next
  case (Bulk_update_settings kvs)
  from assms(1) have "bulk_settings e actor ip kvs d = (r, d')"
    unfolding Bulk_update_settings by simp
  from bulk_settings_logs [OF this assms(2)] show ?thesis
    unfolding Bulk_update_settings .
next
  case (Create_setting b)
  from assms(1) have "post_setting e actor ip b d = (r, d')"
    unfolding Create_setting by simp
  from post_setting_logs [OF this assms(2,3)] show ?thesis
    unfolding Create_setting .
next
  case (Delete_setting k)
  from assms(1) have "delete_setting e actor ip k d = (r, d')"
    unfolding Delete_setting by simp
  from delete_setting_logs [OF this assms(2)] show ?thesis
    unfolding Delete_setting .
next
  case (Create_account b)
  from assms(1) have "post_user h e actor ip b d = (r, d')"
    unfolding Create_account by simp
  from post_user_logs [OF this assms(2)] show ?thesis
    unfolding Create_account .
next
  case (Toggle_account i)
  from assms(1) have "toggle_active e actor ip i d = (r, d')"
    unfolding Toggle_account by simp
  from toggle_active_logs [OF this assms(2)] show ?thesis
    unfolding Toggle_account .
qed

text \<open>
  Not every entry holds the record's state before and after. The restore of the sample
  listing succeeds and its entry has neither snapshot, although the listing has a state
  before and after the request; the bulk update succeeds, changes two settings, and writes
  one entry with no entity identifier and no old snapshot.
\<close>

theorem audit_snapshot_counterexample:
  "succeeded (fst (restore_chiropractor demo_env demo_admin (js ''10.0.0.1'') 1 site_db)) \<and>
   audit_log (snd (restore_chiropractor demo_env demo_admin (js ''10.0.0.1'') 1 site_db)) =
     [\<lparr>a_id = 1, a_user_id = Some 1, a_action = ''restore'',
       a_entity_type = Some ''chiropractor'', a_entity_id = Some 1, a_old_values = None,
       a_new_values = None, a_ip_address = Some (js ''10.0.0.1''), a_user_agent = None,
       a_created_at = 1000\<rparr>] \<and>
   entity_snapshot ''chiropractor'' 1 site_db = Some (Chiro_row demo_chiro) \<and>
   entity_snapshot ''chiropractor'' 1
     (snd (restore_chiropractor demo_env demo_admin (js ''10.0.0.1'') 1 site_db)) =
     Some (Chiro_row (demo_chiro\<lparr>c_updated_at := 1000\<rparr>)) \<and>
   succeeded (fst (bulk_settings demo_env demo_admin (js ''10.0.0.1'') (Some demo_bulk) site_db)) \<and>
   map s_value
     (site_settings (snd (bulk_settings demo_env demo_admin (js ''10.0.0.1'') (Some demo_bulk)
        site_db))) = [Some (js ''Spine Directory''), Some (js ''#000000'')] \<and>
   map (\<lambda>a. (a_entity_type a, a_entity_id a, a_old_values a))
     (audit_log (snd (bulk_settings demo_env demo_admin (js ''10.0.0.1'') (Some demo_bulk) site_db))) =
     [(Some ''settings'', None, None)]"
  by code_simp

theorem admin_write_audited_witness:
  "appended_one (audit_log site_db)
     (audit_log (snd (admin_handler (\<lambda>s. s) demo_env demo_admin (js ''10.0.0.1'')
        (Update_listing 1 valid_input) site_db)))
     (\<lambda>a. a_user_id a = Some (ident_id demo_admin) \<and>
          logged (Update_listing 1 valid_input) site_db
            (snd (admin_handler (\<lambda>s. s) demo_env demo_admin (js ''10.0.0.1'')
               (Update_listing 1 valid_input) site_db)) a) \<and>
   map a_action
     (audit_log (snd (admin_handler (\<lambda>s. s) demo_env demo_admin (js ''10.0.0.1'')
        (Update_listing 1 valid_input) site_db))) = [''update'']"
proof -
  have run: "admin_handler (\<lambda>s. s) demo_env demo_admin (js ''10.0.0.1'')
        (Update_listing 1 valid_input) site_db =
      (fst (admin_handler (\<lambda>s. s) demo_env demo_admin (js ''10.0.0.1'')
         (Update_listing 1 valid_input) site_db),
       snd (admin_handler (\<lambda>s. s) demo_env demo_admin (js ''10.0.0.1'')
         (Update_listing 1 valid_input) site_db))"
    by (rule prod.collapse [symmetric])
  have ok: "succeeded (fst (admin_handler (\<lambda>s. s) demo_env demo_admin (js ''10.0.0.1'')
         (Update_listing 1 valid_input) site_db))"
    by code_simp
  have fresh: "sequences_fresh site_db"
    by code_simp
  have actions: "map a_action
     (audit_log (snd (admin_handler (\<lambda>s. s) demo_env demo_admin (js ''10.0.0.1'')
        (Update_listing 1 valid_input) site_db))) = [''update'']"
    by code_simp
  from admin_write_audited [OF run ok fresh] actions show ?thesis by (intro conjI)
qed

end
